theory Spec2Isabelle
  imports Complex_Main "HOL-Library.Product_Lexorder"
begin

section \<open>The service catalog\<close>

text \<open>
  \<^verbatim>\<open>plan_trip_enhanced\<close> (app.py) reads an RDF graph through four SPARQL queries and
  never writes to it. The graph is represented by the rows those queries range over: one
  row per solution of the flight, hotel and taxi patterns, in the graph's iteration order.
  A resource with two values for one property (two \<^verbatim>\<open>travel:serviceDate\<close> triples, say)
  contributes one row per combination, so several rows may carry the same URI.

  Calendar dates are proleptic Gregorian ordinals (\<^verbatim>\<open>date.toordinal()\<close>), prices are
  Python's unbounded integers. Ratings are floats that the code only negates and compares;
  they are embedded in the reals (no NaN). A character is a code point below 256.
\<close>

type_synonym date = int

record flight_row =
  f_uri :: string
  f_dep :: string
  f_arr :: string
  f_price :: int
  f_airline :: string
  f_date :: date

record hotel_row =
  h_uri :: string
  h_location :: string
  h_price :: int
  h_rating :: real
  h_avail :: date

record taxi_row =
  t_uri :: string
  t_city :: string
  t_price :: int

record graph =
  flights :: "flight_row list"
  hotels :: "hotel_row list"
  taxis :: "taxi_row list"

datatype error = OverflowError | ParseException | QueryError

subsection \<open>Text pasted into a query\<close>

text \<open>
  Lines 135-148, 167-179 and 223-234 build the query text with an f-string: the city is
  pasted between two double quotes. rdflib's \<^verbatim>\<open>parseQuery\<close> first runs
  \<^verbatim>\<open>expandUnicodeEscapes\<close> over the whole text, replacing every match of
  a backslash, the letter u and four or eight hexadecimal digits (case-insensitive, eight
  when there are eight) by the character of that code point, and then reads the string
  literal up to the next double quote.
\<close>

definition hex_digit :: "char \<Rightarrow> nat option" where
  "hex_digit c =
     (let n = (of_char c :: nat)
      in if 48 \<le> n \<and> n \<le> 57 then Some (n - 48)
         else if 97 \<le> n \<and> n \<le> 102 then Some (n - 87)
         else if 65 \<le> n \<and> n \<le> 70 then Some (n - 55)
         else None)"

fun hex_value :: "nat \<Rightarrow> string \<Rightarrow> nat option" where
  "hex_value acc [] = Some acc"
| "hex_value acc (c # cs) =
     (case hex_digit c of None \<Rightarrow> None | Some v \<Rightarrow> hex_value (16 * acc + v) cs)"

text \<open>
  A match of the pattern at the head of the text: its code point and the number of
  characters it takes after the backslash (eight digits when there are eight, else four).
\<close>

definition escape_at :: "string \<Rightarrow> (nat \<times> nat) option" where
  "escape_at s =
     (case s of
        b # u # rest \<Rightarrow>
          if b = CHR 0x5C \<and> (u = CHR ''u'' \<or> u = CHR ''U'') then
            (case (if 8 \<le> length rest then hex_value 0 (take 8 rest) else None) of
               Some n \<Rightarrow> Some (n, 9)
             | None \<Rightarrow>
                 (case (if 4 \<le> length rest then hex_value 0 (take 4 rest) else None) of
                    Some n \<Rightarrow> Some (n, 5)
                  | None \<Rightarrow> None))
          else None
      | _ \<Rightarrow> None)"

text \<open>
  The substitution, left to right, going on after each match. \<open>None\<close>: a code point that is
  not a character here.
\<close>

function expand :: "string \<Rightarrow> string option" where
  "expand [] = Some []"
| "expand (c # cs) =
     (case escape_at (c # cs) of
        Some (n, len) \<Rightarrow>
          if n < 256 then map_option ((#) (char_of n)) (expand (drop len cs)) else None
      | None \<Rightarrow> map_option ((#) c) (expand cs))"
  by pat_completeness auto
termination
  by (relation "measure length") auto

definition expandUnicodeEscapes :: "string \<Rightarrow> string option" where
  "expandUnicodeEscapes q = expand q"

text \<open>Text without double quote, backslash, line feed or carriage return.\<close>

definition plain :: "string \<Rightarrow> bool" where
  "plain t = list_all (\<lambda>c. c \<noteq> CHR 0x22 \<and> c \<noteq> CHR 0x5C \<and> c \<noteq> CHR 0x0A \<and> c \<noteq> CHR 0x0D) t"

text \<open>
  The string literal that the query holds for a pasted text: the expanded text when it is
  plain. \<open>None\<close> otherwise: a double quote ends the literal early and the rest of the text
  is read as query syntax, a line break or a backslash is for the lexer and its decoding of
  escapes such as backslash-n; what the query is then (another query, or none and a
  \<^verbatim>\<open>ParseException\<close>) is left to the engine below.
\<close>

definition interpolated :: "string \<Rightarrow> string option" where
  "interpolated t =
     (case expandUnicodeEscapes t of
        None \<Rightarrow> None
      | Some t' \<Rightarrow> if plain t' then Some t' else None)"

subsection \<open>The queries\<close>

text \<open>
  The rows of the flight and hotel patterns for given literals, ordered by
  \<^verbatim>\<open>ASC(xsd:integer(?price))\<close>; the ordering is stable, rows of equal price stay in
  iteration order.
\<close>

definition flights_matching :: "graph \<Rightarrow> string \<Rightarrow> string \<Rightarrow> flight_row list" where
  "flights_matching g d a =
     sort_key f_price (filter (\<lambda>r. f_dep r = d \<and> f_arr r = a) (flights g))"

definition hotels_located :: "graph \<Rightarrow> string \<Rightarrow> hotel_row list" where
  "hotels_located g c = sort_key h_price (filter (\<lambda>r. h_location r = c) (hotels g))"

text \<open>
  What rdflib answers to a query text whose pasted parts are not read as literals is a
  parameter: the rows as the row loop reads them, or the exception raised on the way.
\<close>

record engine =
  deferred_flights :: "graph \<Rightarrow> string \<Rightarrow> string \<Rightarrow> error + flight_row list"
  deferred_hotels :: "graph \<Rightarrow> string \<Rightarrow> error + hotel_row list"

text \<open>Lines 135-149 and 167-180: \<^verbatim>\<open>run_sparql\<close> on the text with the caller's cities pasted in.\<close>

definition query_flights ::
    "engine \<Rightarrow> graph \<Rightarrow> string \<Rightarrow> string \<Rightarrow> error + flight_row list" where
  "query_flights eng g departure arrival =
     (case interpolated departure of
        None \<Rightarrow> deferred_flights eng g departure arrival
      | Some d \<Rightarrow>
          (case interpolated arrival of
             None \<Rightarrow> deferred_flights eng g departure arrival
           | Some a \<Rightarrow> Inr (flights_matching g d a)))"

definition query_hotels :: "engine \<Rightarrow> graph \<Rightarrow> string \<Rightarrow> error + hotel_row list" where
  "query_hotels eng g arrival =
     (case interpolated arrival of
        None \<Rightarrow> deferred_hotels eng g arrival
      | Some a \<Rightarrow> Inr (hotels_located g a))"

text \<open>
  The taxi query has no pasted text; the location lookup is the \<^verbatim>\<open>LIMIT 1\<close> query of
  lines 290-298.
\<close>

definition query_taxis :: "graph \<Rightarrow> taxi_row list" where
  "query_taxis g = sort_key t_price (taxis g)"

definition query_location :: "graph \<Rightarrow> string \<Rightarrow> string option" where
  "query_location g uri =
     (case filter (\<lambda>r. h_uri r = uri) (hotels g) of
        [] \<Rightarrow> None
      | r # _ \<Rightarrow> Some (h_location r))"

section \<open>The dictionaries built by the planner\<close>

record flight_cand =
  fc_uri :: string
  fc_price :: int
  fc_airline :: string
  fc_date :: date

text \<open>
  A hotel dictionary has the key \<^verbatim>\<open>"city"\<close> only when it was built in the nearby
  cascade (lines 240-246, 249); \<open>hc_city\<close> is \<open>None\<close> for the exact-city ones.
\<close>

record hotel_cand =
  hc_uri :: string
  hc_price :: int
  hc_rating :: real
  hc_avail :: date
  hc_city :: "string option"

record taxi_cand =
  tc_uri :: string
  tc_price :: int
  tc_city :: string

definition flight_candidate :: "flight_row \<Rightarrow> flight_cand" where
  "flight_candidate r =
     \<lparr>fc_uri = f_uri r, fc_price = f_price r, fc_airline = f_airline r, fc_date = f_date r\<rparr>"

definition hotel_candidate :: "string option \<Rightarrow> hotel_row \<Rightarrow> hotel_cand" where
  "hotel_candidate city r =
     \<lparr>hc_uri = h_uri r, hc_price = h_price r, hc_rating = h_rating r,
      hc_avail = h_avail r, hc_city = city\<rparr>"

definition taxi_candidate :: "taxi_row \<Rightarrow> taxi_cand" where
  "taxi_candidate r = \<lparr>tc_uri = t_uri r, tc_price = t_price r, tc_city = t_city r\<rparr>"

datatype status = OK | OverBudget | NoFlights | NoHotelAnywhere

text \<open>
  The lines of the explanation are f-strings; a line is represented by the values
  interpolated into it.
\<close>

datatype explanation_line =
  FlightLine string date int
| HotelLine "string option" string date int
| TaxiLine string string int
| TotalLine int int

text \<open>
  The returned dictionary. A field is \<open>None\<close> when the key is absent from the dictionary or
  bound to Python's \<^verbatim>\<open>None\<close> (what \<^verbatim>\<open>res.get(key)\<close> gives).
\<close>

record planning_result =
  status :: status
  message :: "string option"
  flight :: "flight_cand option"
  hotel :: "hotel_cand option"
  taxi :: "taxi_cand option"
  total_cost :: "int option"
  explanation :: "explanation_line list option"
  flight_candidates :: "flight_cand list option"

section \<open>Flight lookup\<close>

text \<open>The candidates of lines 150-157 when the query holds the literals \<open>d\<close> and \<open>a\<close>.\<close>

definition flight_candidates_of :: "graph \<Rightarrow> string \<Rightarrow> string \<Rightarrow> flight_cand list" where
  "flight_candidates_of g d a = map flight_candidate (flights_matching g d a)"

section \<open>Hotel matching\<close>

text \<open>
  \<^verbatim>\<open>flight_date + timedelta(days=date_flex_days)\<close>: \<^verbatim>\<open>timedelta\<close> refuses more than
  999999999 days, and the sum must stay between \<^verbatim>\<open>date.min\<close> (ordinal 1) and
  \<^verbatim>\<open>date.max\<close> (ordinal 3652059).
\<close>

definition window_end_of :: "date \<Rightarrow> int \<Rightarrow> error + date" where
  "window_end_of flight_date date_flex_days =
     (if \<bar>date_flex_days\<bar> > 999999999 then Inl OverflowError
      else if 1 \<le> flight_date + date_flex_days \<and> flight_date + date_flex_days \<le> 3652059
      then Inr (flight_date + date_flex_days)
      else Inl OverflowError)"

text \<open>The running \<^verbatim>\<open>next_available\<close> / \<^verbatim>\<open>next_avail_near\<close> of the row loops.\<close>

definition next_avail_step :: "date \<Rightarrow> hotel_cand option \<Rightarrow> hotel_cand \<Rightarrow> hotel_cand option" where
  "next_avail_step flight_date na c =
     (if hc_avail c \<ge> flight_date then
        (case na of
           None \<Rightarrow> Some c
         | Some n \<Rightarrow> if hc_avail c < hc_avail n then Some c else Some n)
      else na)"

definition next_available_of :: "date \<Rightarrow> hotel_cand list \<Rightarrow> hotel_cand option" where
  "next_available_of flight_date cands = foldl (next_avail_step flight_date) None cands"

text \<open>
  Lines 199-201 and 252-253: the candidates inside the window, followed by the ones already
  available that are not (as dictionaries) among them.
\<close>

definition within_window_of :: "date \<Rightarrow> date \<Rightarrow> hotel_cand list \<Rightarrow> hotel_cand list" where
  "within_window_of flight_date window_end cands =
     (let within_window =
            filter (\<lambda>h. hc_avail h \<le> window_end \<and> hc_avail h \<ge> flight_date) cands
      in within_window @
         filter (\<lambda>h. hc_avail h \<le> flight_date \<and> h \<notin> set within_window) cands)"

text \<open>Lines 203-206: the \<^verbatim>\<open>seen\<close> set and the \<^verbatim>\<open>filtered\<close> list.\<close>

definition dedup_step :: "string set \<times> hotel_cand list \<Rightarrow> hotel_cand \<Rightarrow> string set \<times> hotel_cand list" where
  "dedup_step sf h =
     (if hc_uri h \<notin> fst sf then (insert (hc_uri h) (fst sf), snd sf @ [h]) else sf)"

definition remove_duplicates :: "hotel_cand list \<Rightarrow> hotel_cand list" where
  "remove_duplicates within_window = snd (foldl dedup_step ({}, []) within_window)"

definition rank_key :: "hotel_cand \<Rightarrow> int \<times> real" where
  "rank_key h = (hc_price h, - hc_rating h)"

text \<open>
  The exact-city candidates and their filtered list when the query holds the literal
  \<open>arrival\<close>.
\<close>

definition hotel_candidates_of :: "graph \<Rightarrow> string \<Rightarrow> hotel_cand list" where
  "hotel_candidates_of g arrival = map (hotel_candidate None) (hotels_located g arrival)"

definition filtered_of :: "graph \<Rightarrow> string \<Rightarrow> date \<Rightarrow> date \<Rightarrow> hotel_cand list" where
  "filtered_of g arrival flight_date window_end =
     remove_duplicates (within_window_of flight_date window_end (hotel_candidates_of g arrival))"

text \<open>
  The candidates of a cascade city (lines 223-249). The cities pasted there are the four
  constants below, which are plain: the query holds the city itself.
\<close>

definition near_candidates_of :: "graph \<Rightarrow> string \<Rightarrow> hotel_cand list" where
  "near_candidates_of g city = map (hotel_candidate (Some city)) (hotels_located g city)"

definition within_near_of :: "graph \<Rightarrow> date \<Rightarrow> date \<Rightarrow> string \<Rightarrow> hotel_cand list" where
  "within_near_of g flight_date window_end city =
     within_window_of flight_date window_end (near_candidates_of g city)"

definition nearby_cities_immediate :: "string list" where
  "nearby_cities_immediate = [''Gurugram'', ''Noida'']"

definition nearby_cities_region :: "string list" where
  "nearby_cities_region = [''Ghaziabad'', ''Faridabad'']"

record hotel_state =
  chosen_hotel :: "hotel_cand option"
  chosen_hotel_method :: "string option"
  fallback_tried :: "string list"

text \<open>
  The inner loop of the cascade (lines 221-262) over the cities of one group. The first
  branch is the \<^verbatim>\<open>break\<close> of line 257.
\<close>

fun city_loop :: "graph \<Rightarrow> date \<Rightarrow> date \<Rightarrow> string list \<Rightarrow> hotel_state \<Rightarrow> hotel_state" where
  "city_loop g flight_date window_end [] s = s"
| "city_loop g flight_date window_end (city # rest) s =
     (let s1 = s\<lparr>fallback_tried := fallback_tried s @ [city]\<rparr>;
          next_avail_near = next_available_of flight_date (near_candidates_of g city);
          within_near = within_near_of g flight_date window_end city
      in if within_near \<noteq> [] then
           s1\<lparr>chosen_hotel := Some (hd (sort_key rank_key within_near)),
              chosen_hotel_method := Some (''NearbyCity:'' @ city)\<rparr>
         else if next_avail_near \<noteq> None \<and> chosen_hotel s1 = None
                 \<and> chosen_hotel_method s1 = None then
           city_loop g flight_date window_end rest
             (s1\<lparr>chosen_hotel := next_avail_near,
                 chosen_hotel_method := Some (''NearbyCityNextAvail:'' @ city)\<rparr>)
         else city_loop g flight_date window_end rest s1)"

text \<open>The outer loop (lines 220, 263-264) over the groups.\<close>

fun group_loop :: "graph \<Rightarrow> date \<Rightarrow> date \<Rightarrow> string list list \<Rightarrow> hotel_state \<Rightarrow> hotel_state" where
  "group_loop g flight_date window_end [] s = s"
| "group_loop g flight_date window_end (nearby_group # later) s =
     (let s' = city_loop g flight_date window_end nearby_group s
      in if chosen_hotel s' \<noteq> None then s'
         else group_loop g flight_date window_end later s')"

text \<open>
  Lines 181-264 on the rows of the exact-city query. The exact-city \<^verbatim>\<open>next_available\<close> is
  computed by the row loop and not read afterwards.
\<close>

definition hotel_stage_rows :: "graph \<Rightarrow> hotel_row list \<Rightarrow> date \<Rightarrow> date \<Rightarrow> hotel_state" where
  "hotel_stage_rows g hotels_city flight_date window_end =
     (let hotel_candidates = map (hotel_candidate None) hotels_city;
          next_available = next_available_of flight_date hotel_candidates;
          filtered = remove_duplicates (within_window_of flight_date window_end hotel_candidates)
      in if filtered \<noteq> [] then
           \<lparr>chosen_hotel = Some (hd (sort_key rank_key filtered)),
            chosen_hotel_method = Some ''ExactCityWithinWindow'',
            fallback_tried = []\<rparr>
         else
           group_loop g flight_date window_end
             [nearby_cities_immediate, nearby_cities_region]
             \<lparr>chosen_hotel = None, chosen_hotel_method = None, fallback_tried = []\<rparr>)"

text \<open>The same when the exact-city query holds the literal \<open>arrival\<close>.\<close>

definition hotel_stage :: "graph \<Rightarrow> string \<Rightarrow> date \<Rightarrow> date \<Rightarrow> hotel_state" where
  "hotel_stage g arrival flight_date window_end =
     hotel_stage_rows g (hotels_located g arrival) flight_date window_end"

section \<open>Taxi selection\<close>

definition taxi_candidates_of :: "graph \<Rightarrow> taxi_cand list" where
  "taxi_candidates_of g = map taxi_candidate (query_taxis g)"

definition select_taxi :: "graph \<Rightarrow> hotel_cand option \<Rightarrow> taxi_cand option" where
  "select_taxi g ch =
     (let taxi_candidates = taxi_candidates_of g;
          chosen_taxi =
            (case ch of
               None \<Rightarrow> None
             | Some h \<Rightarrow>
                 (let ch_city = (case hc_city h of
                                   Some c \<Rightarrow> Some c
                                 | None \<Rightarrow> query_location g (hc_uri h))
                  in find (\<lambda>t. Some (tc_city t) = ch_city) taxi_candidates))
      in if chosen_taxi = None \<and> taxi_candidates \<noteq> [] then Some (hd taxi_candidates)
         else chosen_taxi)"

section \<open>Cost evaluation and the planner\<close>

text \<open>\<^verbatim>\<open>uri.split('#')[-1]\<close>: what follows the last \<^verbatim>\<open>#\<close>, the whole string if there is none.\<close>

definition after_last_hash :: "string \<Rightarrow> string" where
  "after_last_hash uri = rev (takeWhile (\<lambda>c. c \<noteq> CHR ''#'') (rev uri))"

definition no_flights_result :: planning_result where
  "no_flights_result =
     \<lparr>status = NoFlights, message = Some ''No flights found for route.'',
      flight = None, hotel = None, taxi = None, total_cost = None,
      explanation = None, flight_candidates = None\<rparr>"

definition no_hotel_result :: planning_result where
  "no_hotel_result =
     \<lparr>status = NoHotelAnywhere,
      message = Some ''No hotel found in city or nearby; recommend adjusting date or city.'',
      flight = None, hotel = None, taxi = None, total_cost = None,
      explanation = None, flight_candidates = None\<rparr>"

text \<open>Lines 311-333, for a chosen hotel; the budget is an integer, so \<^verbatim>\<open>int(budget)\<close> is it.\<close>

definition itinerary :: "flight_cand list \<Rightarrow> flight_cand \<Rightarrow> hotel_cand \<Rightarrow> string option \<Rightarrow>
    taxi_cand option \<Rightarrow> int \<Rightarrow> planning_result" where
  "itinerary cands best_flight ch ch_method chosen_taxi budget =
     (let total = fc_price best_flight + hc_price ch
                  + (case chosen_taxi of Some t \<Rightarrow> tc_price t | None \<Rightarrow> 0);
          expl = [FlightLine (fc_airline best_flight) (fc_date best_flight) (fc_price best_flight),
                  HotelLine ch_method (after_last_hash (hc_uri ch)) (hc_avail ch) (hc_price ch)]
                 @ (case chosen_taxi of
                      Some t \<Rightarrow> [TaxiLine (after_last_hash (tc_uri t)) (tc_city t) (tc_price t)]
                    | None \<Rightarrow> [])
                 @ [TotalLine total budget]
      in \<lparr>status = (if total \<le> budget then OK else OverBudget),
          message = None,
          flight = Some best_flight, hotel = Some ch, taxi = chosen_taxi,
          total_cost = Some total, explanation = Some expl,
          flight_candidates = Some cands\<rparr>)"

text \<open>
  Lines 150-333 on the rows of the flight query; the exact-city hotel query of line 180
  comes after the window end of line 166.
\<close>

definition plan_from_flights ::
    "engine \<Rightarrow> graph \<Rightarrow> string \<Rightarrow> int \<Rightarrow> int \<Rightarrow> flight_row list
     \<Rightarrow> error + planning_result" where
  "plan_from_flights eng g arrival budget date_flex_days flights_found =
     (let cands = map flight_candidate flights_found
      in if cands = [] then Inr no_flights_result
         else
           (let best_flight = hd cands;
                flight_date = fc_date best_flight
            in case window_end_of flight_date date_flex_days of
                 Inl e \<Rightarrow> Inl e
               | Inr window_end \<Rightarrow>
                   (case query_hotels eng g arrival of
                      Inl e \<Rightarrow> Inl e
                    | Inr hotels_city \<Rightarrow>
                        (let hs = hotel_stage_rows g hotels_city flight_date window_end;
                             chosen_taxi = select_taxi g (chosen_hotel hs)
                         in case chosen_hotel hs of
                              None \<Rightarrow> Inr no_hotel_result
                            | Some ch \<Rightarrow>
                                Inr (itinerary cands best_flight ch (chosen_hotel_method hs)
                                       chosen_taxi budget)))))"

text \<open>
  \<^verbatim>\<open>plan_trip_enhanced\<close>. The query engine, the library's \<^verbatim>\<open>datetime.fromisoformat\<close>
  and the clock are parameters: \<open>fromisoformat\<close> gives \<open>None\<close> where the call raises (the
  bare \<^verbatim>\<open>except\<close> catches it), \<open>today\<close> is \<^verbatim>\<open>datetime.now().date()\<close>. \<open>Inl\<close> is an
  exception that leaves the function.
\<close>

definition plan_trip_enhanced ::
    "engine \<Rightarrow> (string \<Rightarrow> date option) \<Rightarrow> date \<Rightarrow> graph \<Rightarrow> string \<Rightarrow> string \<Rightarrow> string
     \<Rightarrow> int \<Rightarrow> int \<Rightarrow> error + planning_result" where
  "plan_trip_enhanced eng fromisoformat today g departure arrival dep_date_str budget
       date_flex_days =
     (let arrival_date = (case fromisoformat dep_date_str of Some d \<Rightarrow> d | None \<Rightarrow> today)
      in case query_flights eng g departure arrival of
           Inl e \<Rightarrow> Inl e
         | Inr flights_found \<Rightarrow> plan_from_flights eng g arrival budget date_flex_days flights_found)"

section \<open>Sample catalogs\<close>

text \<open>
  The flights and taxis of \<^verbatim>\<open>build_graph\<close>; 739560 is the ordinal of 2025-11-05. The hotel
  rows vary from one catalog to the next.
\<close>

definition mk_flight :: "string \<Rightarrow> string \<Rightarrow> string \<Rightarrow> int \<Rightarrow> string \<Rightarrow> date \<Rightarrow> flight_row" where
  "mk_flight u d a p l dt =
     \<lparr>f_uri = u, f_dep = d, f_arr = a, f_price = p, f_airline = l, f_date = dt\<rparr>"

definition mk_hotel :: "string \<Rightarrow> string \<Rightarrow> int \<Rightarrow> real \<Rightarrow> date \<Rightarrow> hotel_row" where
  "mk_hotel u l p r d =
     \<lparr>h_uri = u, h_location = l, h_price = p, h_rating = r, h_avail = d\<rparr>"

definition mk_taxi :: "string \<Rightarrow> string \<Rightarrow> int \<Rightarrow> taxi_row" where
  "mk_taxi u c p = \<lparr>t_uri = u, t_city = c, t_price = p\<rparr>"

definition demo_flights :: "flight_row list" where
  "demo_flights =
     [mk_flight ''Flight1'' ''Chennai'' ''Delhi'' 6500 ''IndiGo'' 739560,
      mk_flight ''Flight2'' ''Chennai'' ''Delhi'' 7200 ''Air India'' 739560,
      mk_flight ''Flight3'' ''Chennai'' ''Mumbai'' 5800 ''Vistara'' 739560,
      mk_flight ''Flight4'' ''Chennai'' ''Delhi'' 9000 ''SpiceJet'' 739558]"

definition demo_taxis :: "taxi_row list" where
  "demo_taxis =
     [mk_taxi ''Taxi1'' ''Delhi'' 900,
      mk_taxi ''Taxi2'' ''Delhi'' 1200,
      mk_taxi ''TaxiG1'' ''Gurugram'' 1000,
      mk_taxi ''Taxi3'' ''Mumbai'' 700]"

definition catalog :: "hotel_row list \<Rightarrow> graph" where
  "catalog hs = \<lparr>flights = demo_flights, hotels = hs, taxis = demo_taxis\<rparr>"

definition demo_hotels :: "hotel_row list" where
  "demo_hotels =
     [mk_hotel ''Hotel0'' ''Delhi'' 2800 4.0 739556,
      mk_hotel ''Hotel1'' ''Delhi'' 3000 4.2 739560,
      mk_hotel ''Hotel2'' ''Delhi'' 2500 3.9 739560,
      mk_hotel ''Hotel4'' ''Delhi'' 4500 4.8 739561,
      mk_hotel ''HotelG1'' ''Gurugram'' 2600 4.1 739558,
      mk_hotel ''HotelG2'' ''Gurugram'' 2200 3.8 739559,
      mk_hotel ''HotelN1'' ''Noida'' 2400 4.0 739557,
      mk_hotel ''HotelM1'' ''Mumbai'' 2000 4.0 739560]"

text \<open>
  Further hotel rows: after the window of a flight on 2025-11-05 with two flexible days
  (\<open>late_\<close>), or inside it.
\<close>

definition late_delhi :: hotel_row where
  "late_delhi = mk_hotel ''Hotel9'' ''Delhi'' 3000 4.5 739565"

definition late_mumbai :: hotel_row where
  "late_mumbai = mk_hotel ''HotelM9'' ''Mumbai'' 2000 4.0 739565"

definition late_gurugram :: hotel_row where
  "late_gurugram = mk_hotel ''HotelG9'' ''Gurugram'' 2600 4.1 739565"

definition late_noida :: hotel_row where
  "late_noida = mk_hotel ''HotelN9'' ''Noida'' 2100 4.0 739563"

definition noida_now :: hotel_row where
  "noida_now = mk_hotel ''HotelN1'' ''Noida'' 2400 4.0 739557"

definition ghaziabad_now :: hotel_row where
  "ghaziabad_now = mk_hotel ''HotelZ1'' ''Ghaziabad'' 2000 4.0 739560"

text \<open>Delhi rows on the last day of that window, on the day after it, and before the flight.\<close>

definition edge_in_delhi :: hotel_row where
  "edge_in_delhi = mk_hotel ''HotelE0'' ''Delhi'' 3100 4.0 739562"

definition edge_out_delhi :: hotel_row where
  "edge_out_delhi = mk_hotel ''HotelE1'' ''Delhi'' 1000 4.9 739563"

definition early_delhi :: hotel_row where
  "early_delhi = mk_hotel ''HotelE2'' ''Delhi'' 3200 4.0 739550"

text \<open>One hotel with two \<^verbatim>\<open>travel:location\<close> values, Delhi and Gurugram, available late.\<close>

definition two_city_hotel :: "hotel_row list" where
  "two_city_hotel =
     [mk_hotel ''HotelX'' ''Delhi'' 3000 4.5 739565,
      mk_hotel ''HotelX'' ''Gurugram'' 3000 4.5 739565]"

text \<open>One Gurugram hotel with two \<^verbatim>\<open>travel:serviceDate\<close> values: two rows, one URI.\<close>

definition gurugram_two_dates :: "hotel_row list" where
  "gurugram_two_dates =
     [mk_hotel ''HotelG1'' ''Gurugram'' 2600 4.1 739558,
      mk_hotel ''HotelG1'' ''Gurugram'' 2600 4.1 739559]"

text \<open>A catalog whose only flight lands in Gurugram, and one without taxis.\<close>

definition gurugram_route :: graph where
  "gurugram_route =
     \<lparr>flights = [mk_flight ''Flight9'' ''Chennai'' ''Gurugram'' 5000 ''IndiGo'' 739560],
      hotels = [late_gurugram], taxis = demo_taxis\<rparr>"

definition no_taxi_catalog :: graph where
  "no_taxi_catalog = \<lparr>flights = demo_flights, hotels = demo_hotels, taxis = []\<rparr>"

definition empty_state :: hotel_state where
  "empty_state = \<lparr>chosen_hotel = None, chosen_hotel_method = None, fallback_tried = []\<rparr>"

text \<open>An engine that refuses every text it is asked about.\<close>

definition strict_engine :: engine where
  "strict_engine =
     \<lparr>deferred_flights = (\<lambda>g departure arrival. Inl ParseException),
      deferred_hotels = (\<lambda>g arrival. Inl ParseException)\<rparr>"

text \<open>Chennai with its first n spelled as an escape: a backslash, then \<^verbatim>\<open>u006e\<close>.\<close>

definition escaped_chennai :: string where
  "escaped_chennai = ''Chen'' @ CHR 0x5C # ''u006eai''"

text \<open>The itinerary for Chennai to Delhi on the catalog of \<^verbatim>\<open>build_graph\<close>, budget 15000.\<close>

definition demo_itinerary :: planning_result where
  "demo_itinerary =
     itinerary
       [flight_candidate (mk_flight ''Flight1'' ''Chennai'' ''Delhi'' 6500 ''IndiGo'' 739560),
        flight_candidate (mk_flight ''Flight2'' ''Chennai'' ''Delhi'' 7200 ''Air India'' 739560),
        flight_candidate (mk_flight ''Flight4'' ''Chennai'' ''Delhi'' 9000 ''SpiceJet'' 739558)]
       (flight_candidate (mk_flight ''Flight1'' ''Chennai'' ''Delhi'' 6500 ''IndiGo'' 739560))
       (hotel_candidate None (mk_hotel ''Hotel2'' ''Delhi'' 2500 3.9 739560))
       (Some ''ExactCityWithinWindow'')
       (Some (taxi_candidate (mk_taxi ''Taxi1'' ''Delhi'' 900)))
       15000"

text \<open>A parser for the travel date that accepts one spelling only.\<close>

definition iso_sample :: "string \<Rightarrow> date option" where
  "iso_sample s = (if s = ''2025-11-05'' then Some 739560 else None)"

section \<open>Unfolding sets for evaluation\<close>

lemmas query_defs = flights_matching_def hotels_located_def query_taxis_def query_location_def
  flight_candidate_def hotel_candidate_def taxi_candidate_def hotel_candidates_of_def near_candidates_of_def taxi_candidates_of_def

lemmas hotel_defs = within_window_of_def within_near_of_def remove_duplicates_def dedup_step_def
  filtered_of_def next_available_of_def next_avail_step_def rank_key_def
  nearby_cities_immediate_def nearby_cities_region_def hotel_stage_def hotel_stage_rows_def
  city_loop.simps(2)

lemmas plan_defs = plan_trip_enhanced_def plan_from_flights_def query_flights_def
  query_hotels_def window_end_of_def select_taxi_def itinerary_def after_last_hash_def
  no_flights_result_def no_hotel_result_def

section \<open>Sorting: the head of a sorted list\<close>

lemma sort_key_Nil_iff: "sort_key f xs = [] \<longleftrightarrow> xs = []"
  by (metis length_sort length_0_conv)

lemma hd_sort_key_mem: "xs \<noteq> [] \<Longrightarrow> hd (sort_key f xs) \<in> set xs"
proof -
  assume "xs \<noteq> []"
  then have "sort_key f xs \<noteq> []" by (simp add: sort_key_Nil_iff)
  then have "hd (sort_key f xs) \<in> set (sort_key f xs)" by (rule hd_in_set)
  then show ?thesis by simp
qed

lemma hd_sort_key_least: "x \<in> set xs \<Longrightarrow> f (hd (sort_key f xs)) \<le> f x"
proof -
  assume x: "x \<in> set xs"
  then have "x \<in> set (sort_key f xs)" by simp
  moreover have "sorted (map f (sort_key f xs))" by (rule sorted_sort_key)
  ultimately show ?thesis
    by (cases "sort_key f xs") auto
qed

section \<open>The flexible window, the next-available candidate and the duplicates\<close>

lemma set_within_window_of:
  "set (within_window_of fd we cs)
     = {h \<in> set cs. (fd \<le> hc_avail h \<and> hc_avail h \<le> we) \<or> hc_avail h \<le> fd}"
  by (auto simp: within_window_of_def Let_def)

lemma within_window_of_Nil:
  "within_window_of fd we cs = [] \<longleftrightarrow> (\<forall>h\<in>set cs. fd < hc_avail h \<and> we < hc_avail h)"
proof -
  have "within_window_of fd we cs = [] \<longleftrightarrow> set (within_window_of fd we cs) = {}"
    by simp
  also have "\<dots> \<longleftrightarrow> (\<forall>h\<in>set cs. fd < hc_avail h \<and> we < hc_avail h)"
    unfolding set_within_window_of by auto
  finally show ?thesis .
qed

lemma foldl_next_avail_None:
  "foldl (next_avail_step fd) acc cs = None
     \<longleftrightarrow> acc = None \<and> (\<forall>c\<in>set cs. hc_avail c < fd)"
  by (induction cs arbitrary: acc) (auto simp: next_avail_step_def split: option.splits)

lemma next_available_of_None:
  "next_available_of fd cs = None \<longleftrightarrow> (\<forall>c\<in>set cs. hc_avail c < fd)"
  by (simp add: next_available_of_def foldl_next_avail_None)

lemma foldl_next_avail_Some:
  "foldl (next_avail_step fd) acc cs = Some n \<Longrightarrow> acc = Some n \<or> n \<in> set cs"
  by (induction cs arbitrary: acc) (auto simp: next_avail_step_def split: option.splits if_splits)

lemma next_available_of_mem: "next_available_of fd cs = Some n \<Longrightarrow> n \<in> set cs"
  using foldl_next_avail_Some [of fd None cs n] by (simp add: next_available_of_def)

text \<open>A city without an in-window candidate has a next-available one unless it has no rows.\<close>

lemma next_available_of_no_window:
  assumes "within_window_of fd we cs = []"
  shows "next_available_of fd cs = None \<longleftrightarrow> cs = []"
proof
  assume "next_available_of fd cs = None"
  then have "\<forall>c\<in>set cs. hc_avail c < fd" by (simp add: next_available_of_None)
  moreover from assms have "\<forall>c\<in>set cs. fd < hc_avail c" by (simp add: within_window_of_Nil)
  ultimately have "\<forall>c\<in>set cs. False" by (metis less_asym)
  then show "cs = []" by (cases cs) auto
next
  assume "cs = []" then show "next_available_of fd cs = None"
    by (simp add: next_available_of_def)
qed

lemma foldl_dedup_step:
  "fst sf = hc_uri ` set (snd sf) \<Longrightarrow> distinct (map hc_uri (snd sf)) \<Longrightarrow>
     fst (foldl dedup_step sf ws) = hc_uri ` set (snd (foldl dedup_step sf ws))
   \<and> distinct (map hc_uri (snd (foldl dedup_step sf ws)))
   \<and> set (snd (foldl dedup_step sf ws)) \<subseteq> set (snd sf) \<union> set ws
   \<and> hc_uri ` set (snd (foldl dedup_step sf ws)) = hc_uri ` (set (snd sf) \<union> set ws)"
proof (induction ws arbitrary: sf)
  case Nil
  then show ?case by simp
next
  case (Cons w ws)
  let ?sf = "dedup_step sf w"
  have a: "fst ?sf = hc_uri ` set (snd ?sf)" using Cons.prems(1) by (auto simp: dedup_step_def)
  have b: "distinct (map hc_uri (snd ?sf))" using Cons.prems by (auto simp: dedup_step_def)
  have c: "set (snd ?sf) \<subseteq> set (snd sf) \<union> set (w # ws)" by (auto simp: dedup_step_def)
  have d: "hc_uri ` (set (snd ?sf) \<union> set ws) = hc_uri ` (set (snd sf) \<union> set (w # ws))"
    using Cons.prems(1) by (auto simp: dedup_step_def)
  from Cons.IH [OF a b] c d show ?case by auto
qed

lemma remove_duplicates_props:
  "distinct (map hc_uri (remove_duplicates ws))"
  "set (remove_duplicates ws) \<subseteq> set ws"
  "hc_uri ` set (remove_duplicates ws) = hc_uri ` set ws"
  using foldl_dedup_step [of "({}, [])" ws] by (auto simp: remove_duplicates_def)

lemma remove_duplicates_Nil: "remove_duplicates ws = [] \<longleftrightarrow> ws = []"
  using remove_duplicates_props(3) [of ws] by (metis image_is_empty set_empty)

section \<open>The loops of the nearby cascade\<close>

lemma within_near_of_no_rows: "near_candidates_of g c = [] \<Longrightarrow> within_near_of g fd we c = []"
  by (simp add: within_near_of_def within_window_of_def)

lemma city_loop_match:
  "within_near_of g fd we c \<noteq> [] \<Longrightarrow>
     city_loop g fd we (c # rest) s
       = s\<lparr>fallback_tried := fallback_tried s @ [c],
           chosen_hotel := Some (hd (sort_key rank_key (within_near_of g fd we c))),
           chosen_hotel_method := Some (''NearbyCity:'' @ c)\<rparr>"
  by (simp add: Let_def)

lemma city_loop_pinned_skip:
  "within_near_of g fd we c = [] \<Longrightarrow> chosen_hotel s \<noteq> None \<Longrightarrow>
     city_loop g fd we (c # rest) s
       = city_loop g fd we rest (s\<lparr>fallback_tried := fallback_tried s @ [c]\<rparr>)"
  by (auto simp: Let_def)

lemma city_loop_no_rows:
  "near_candidates_of g c = [] \<Longrightarrow>
     city_loop g fd we (c # rest) s
       = city_loop g fd we rest (s\<lparr>fallback_tried := fallback_tried s @ [c]\<rparr>)"
  by (simp add: Let_def within_near_of_no_rows next_available_of_def)

lemma city_loop_provisional:
  "within_near_of g fd we c = [] \<Longrightarrow> chosen_hotel s = None \<Longrightarrow> chosen_hotel_method s = None \<Longrightarrow>
   next_available_of fd (near_candidates_of g c) = Some p \<Longrightarrow>
     city_loop g fd we (c # rest) s
       = city_loop g fd we rest
           (s\<lparr>fallback_tried := fallback_tried s @ [c], chosen_hotel := Some p,
              chosen_hotel_method := Some (''NearbyCityNextAvail:'' @ c)\<rparr>)"
  by (simp add: Let_def)

lemma city_loop_pinned:
  "chosen_hotel s \<noteq> None \<Longrightarrow>
     city_loop g fd we cs s
       = (case dropWhile (\<lambda>c. within_near_of g fd we c = []) cs of
            [] \<Rightarrow> s\<lparr>fallback_tried := fallback_tried s @ cs\<rparr>
          | c # _ \<Rightarrow>
              s\<lparr>fallback_tried :=
                   fallback_tried s @ takeWhile (\<lambda>c. within_near_of g fd we c = []) cs @ [c],
                chosen_hotel := Some (hd (sort_key rank_key (within_near_of g fd we c))),
                chosen_hotel_method := Some (''NearbyCity:'' @ c)\<rparr>)"
proof (induction cs arbitrary: s)
  case Nil
  then show ?case by simp
next
  case (Cons c cs)
  show ?case
  proof (cases "within_near_of g fd we c = []")
    case True
    let ?s1 = "s\<lparr>fallback_tried := fallback_tried s @ [c]\<rparr>"
    have "chosen_hotel ?s1 \<noteq> None" using Cons.prems by simp
    then have step: "city_loop g fd we (c # cs) s
        = (case dropWhile (\<lambda>c. within_near_of g fd we c = []) cs of
            [] \<Rightarrow> ?s1\<lparr>fallback_tried := fallback_tried ?s1 @ cs\<rparr>
          | d # _ \<Rightarrow>
              ?s1\<lparr>fallback_tried :=
                   fallback_tried ?s1 @ takeWhile (\<lambda>c. within_near_of g fd we c = []) cs @ [d],
                chosen_hotel := Some (hd (sort_key rank_key (within_near_of g fd we d))),
                chosen_hotel_method := Some (''NearbyCity:'' @ d)\<rparr>)"
      using Cons.IH [of ?s1] city_loop_pinned_skip [OF True Cons.prems] by simp
    have dw: "dropWhile (\<lambda>c. within_near_of g fd we c = []) (c # cs)
                = dropWhile (\<lambda>c. within_near_of g fd we c = []) cs"
      and tw: "takeWhile (\<lambda>c. within_near_of g fd we c = []) (c # cs)
                = c # takeWhile (\<lambda>c. within_near_of g fd we c = []) cs"
      using True by simp_all
    show ?thesis
    proof (cases "dropWhile (\<lambda>c. within_near_of g fd we c = []) cs")
      case Nil
      show ?thesis unfolding step dw tw Nil by simp
    next
      case (Cons d ds)
      show ?thesis unfolding step dw tw Cons by simp
    qed
  next
    case False
    then show ?thesis by (simp add: city_loop_match del: city_loop.simps)
  qed
qed

lemma city_loop_keeps_choice:
  "chosen_hotel s \<noteq> None \<Longrightarrow> chosen_hotel (city_loop g fd we cs s) \<noteq> None"
proof (cases "dropWhile (\<lambda>c. within_near_of g fd we c = []) cs")
  case Nil
  assume "chosen_hotel s \<noteq> None"
  then show ?thesis unfolding city_loop_pinned [OF \<open>chosen_hotel s \<noteq> None\<close>] Nil by simp
next
  case (Cons d ds)
  assume "chosen_hotel s \<noteq> None"
  then show ?thesis unfolding city_loop_pinned [OF \<open>chosen_hotel s \<noteq> None\<close>] Cons by simp
qed

lemma city_loop_skip_prefix:
  "\<forall>c\<in>set pre. near_candidates_of g c = [] \<Longrightarrow>
     city_loop g fd we (pre @ cs) s
       = city_loop g fd we cs (s\<lparr>fallback_tried := fallback_tried s @ pre\<rparr>)"
proof (induction pre arbitrary: s)
  case Nil
  then show ?case by simp
next
  case (Cons c pre)
  then show ?case by (simp add: city_loop_no_rows del: city_loop.simps)
qed


lemma city_loop_no_window:
  assumes "within_near_of g fd we c = []"
  shows "city_loop g fd we (c # rest) s
       = (if near_candidates_of g c \<noteq> [] \<and> chosen_hotel s = None \<and> chosen_hotel_method s = None
          then city_loop g fd we rest
                 (s\<lparr>fallback_tried := fallback_tried s @ [c],
                    chosen_hotel := next_available_of fd (near_candidates_of g c),
                    chosen_hotel_method := Some (''NearbyCityNextAvail:'' @ c)\<rparr>)
          else city_loop g fd we rest (s\<lparr>fallback_tried := fallback_tried s @ [c]\<rparr>))"
proof (cases "near_candidates_of g c = []")
  case True
  then show ?thesis by (simp add: city_loop_no_rows del: city_loop.simps(2))
next
  case False
  then have "next_available_of fd (near_candidates_of g c) \<noteq> None"
    using assms by (simp add: within_near_of_def next_available_of_no_window)
  then obtain p where p: "next_available_of fd (near_candidates_of g c) = Some p" by auto
  show ?thesis
  proof (cases "chosen_hotel s = None \<and> chosen_hotel_method s = None")
    case True
    then show ?thesis using False p assms by (simp add: Let_def)
  next
    case False
    then show ?thesis using p assms by (auto simp: Let_def)
  qed
qed

lemma next_available_of_Some_no_window:
  assumes "within_near_of g fd we c = []" "near_candidates_of g c \<noteq> []"
  shows "next_available_of fd (near_candidates_of g c) \<noteq> None"
  using assms by (simp add: next_available_of_no_window within_near_of_def)

text \<open>One group of two cities, entered without a choice.\<close>

lemma city_loop_pair:
  assumes s: "chosen_hotel s = None" "chosen_hotel_method s = None"
  shows "city_loop g fd we [a, b] s
       = (if within_near_of g fd we a \<noteq> [] then
            s\<lparr>fallback_tried := fallback_tried s @ [a],
              chosen_hotel := Some (hd (sort_key rank_key (within_near_of g fd we a))),
              chosen_hotel_method := Some (''NearbyCity:'' @ a)\<rparr>
          else if within_near_of g fd we b \<noteq> [] then
            s\<lparr>fallback_tried := fallback_tried s @ [a, b],
              chosen_hotel := Some (hd (sort_key rank_key (within_near_of g fd we b))),
              chosen_hotel_method := Some (''NearbyCity:'' @ b)\<rparr>
          else if near_candidates_of g a \<noteq> [] then
            s\<lparr>fallback_tried := fallback_tried s @ [a, b],
              chosen_hotel := next_available_of fd (near_candidates_of g a),
              chosen_hotel_method := Some (''NearbyCityNextAvail:'' @ a)\<rparr>
          else if near_candidates_of g b \<noteq> [] then
            s\<lparr>fallback_tried := fallback_tried s @ [a, b],
              chosen_hotel := next_available_of fd (near_candidates_of g b),
              chosen_hotel_method := Some (''NearbyCityNextAvail:'' @ b)\<rparr>
          else s\<lparr>fallback_tried := fallback_tried s @ [a, b]\<rparr>)"
proof (cases "within_near_of g fd we a = []")
  case False
  then show ?thesis by (simp add: city_loop_match del: city_loop.simps(2))
next
  case wa: True
  show ?thesis
  proof (cases "near_candidates_of g a = []")
    case ra: True
    let ?s1 = "s\<lparr>fallback_tried := fallback_tried s @ [a]\<rparr>"
    have 1: "city_loop g fd we [a, b] s = city_loop g fd we [b] ?s1"
      using ra by (simp add: city_loop_no_window [OF wa] del: city_loop.simps(2))
    show ?thesis
    proof (cases "within_near_of g fd we b = []")
      case False
      then show ?thesis unfolding 1 using wa ra
        by (simp add: city_loop_match del: city_loop.simps(2))
    next
      case wb: True
      show ?thesis unfolding 1 using wa ra wb s
        by (simp add: city_loop_no_window [OF wb] del: city_loop.simps(2))
    qed
  next
    case ra: False
    let ?s1 = "s\<lparr>fallback_tried := fallback_tried s @ [a],
                 chosen_hotel := next_available_of fd (near_candidates_of g a),
                 chosen_hotel_method := Some (''NearbyCityNextAvail:'' @ a)\<rparr>"
    have 1: "city_loop g fd we [a, b] s = city_loop g fd we [b] ?s1"
      using ra s by (simp add: city_loop_no_window [OF wa] del: city_loop.simps(2))
    have 2: "chosen_hotel ?s1 \<noteq> None"
      using next_available_of_Some_no_window [OF wa ra] by simp
    show ?thesis
    proof (cases "within_near_of g fd we b = []")
      case False
      then show ?thesis unfolding 1 using wa ra
        by (simp add: city_loop_match del: city_loop.simps(2))
    next
      case wb: True
      show ?thesis unfolding 1 city_loop_pinned_skip [OF wb 2] using wa ra wb
        by simp
    qed
  qed
qed

declare city_loop.simps(2) [simp del]

lemma within_near_of_subset: "set (within_near_of g fd we c) \<subseteq> set (near_candidates_of g c)"
  by (auto simp: within_near_of_def set_within_window_of)

lemma city_loop_choice_origin:
  "chosen_hotel (city_loop g fd we cs s) = Some h \<Longrightarrow>
     chosen_hotel s = Some h \<or> (\<exists>c\<in>set cs. h \<in> set (near_candidates_of g c))"
proof (induction cs arbitrary: s)
  case Nil
  then show ?case by simp
next
  case (Cons c cs)
  show ?case
  proof (cases "within_near_of g fd we c = []")
    case False
    then have "hd (sort_key rank_key (within_near_of g fd we c)) \<in> set (within_near_of g fd we c)"
      by (rule hd_sort_key_mem)
    then have "hd (sort_key rank_key (within_near_of g fd we c)) \<in> set (near_candidates_of g c)"
      using within_near_of_subset by blast
    moreover have "h = hd (sort_key rank_key (within_near_of g fd we c))"
      using Cons.prems unfolding city_loop_match [OF False] by simp
    ultimately show ?thesis by simp
  next
    case True
    show ?thesis
    proof (cases "near_candidates_of g c \<noteq> [] \<and> chosen_hotel s = None \<and> chosen_hotel_method s = None")
      case False
      then have "city_loop g fd we (c # cs) s
                  = city_loop g fd we cs (s\<lparr>fallback_tried := fallback_tried s @ [c]\<rparr>)"
        unfolding city_loop_no_window [OF True] by auto
      with Cons.prems Cons.IH [of "s\<lparr>fallback_tried := fallback_tried s @ [c]\<rparr>"]
      show ?thesis by auto
    next
      case pick: True
      let ?s1 = "s\<lparr>fallback_tried := fallback_tried s @ [c],
                    chosen_hotel := next_available_of fd (near_candidates_of g c),
                    chosen_hotel_method := Some (''NearbyCityNextAvail:'' @ c)\<rparr>"
      have "city_loop g fd we (c # cs) s = city_loop g fd we cs ?s1"
        unfolding city_loop_no_window [OF True] using pick by simp
      with Cons.prems Cons.IH [of ?s1]
      have "next_available_of fd (near_candidates_of g c) = Some h
            \<or> (\<exists>c\<in>set cs. h \<in> set (near_candidates_of g c))" by auto
      then show ?thesis using next_available_of_mem by fastforce
    qed
  qed
qed

lemma group_loop_choice_origin:
  "chosen_hotel (group_loop g fd we gs s) = Some h \<Longrightarrow>
     chosen_hotel s = Some h \<or> (\<exists>c\<in>set (concat gs). h \<in> set (near_candidates_of g c))"
proof (induction gs arbitrary: s)
  case Nil
  then show ?case by simp
next
  case (Cons grp gs)
  let ?s' = "city_loop g fd we grp s"
  show ?case
  proof (cases "chosen_hotel ?s' = None")
    case True
    then have "group_loop g fd we (grp # gs) s = group_loop g fd we gs ?s'"
      by (simp add: Let_def)
    with Cons.prems Cons.IH [of ?s'] True show ?thesis by auto
  next
    case False
    then have "group_loop g fd we (grp # gs) s = ?s'" by (auto simp: Let_def)
    with Cons.prems city_loop_choice_origin [of g fd we grp s h] show ?thesis by auto
  qed
qed

text \<open>The two groups of two cities, entered without a choice.\<close>

lemma group_loop_two_pairs:
  "group_loop g fd we [[a, b], [c, d]]
      \<lparr>chosen_hotel = None, chosen_hotel_method = None, fallback_tried = []\<rparr>
   = (let s0 = \<lparr>chosen_hotel = None, chosen_hotel_method = None, fallback_tried = []\<rparr>;
          s1 = city_loop g fd we [a, b] s0
      in if chosen_hotel s1 \<noteq> None then s1 else city_loop g fd we [c, d] s1)"
  by (simp add: Let_def)

lemma cascade_tried:
  "fallback_tried (group_loop g fd we [[a, b], [c, d]]
      \<lparr>chosen_hotel = None, chosen_hotel_method = None, fallback_tried = []\<rparr>)
   = (if within_near_of g fd we a \<noteq> [] then [a]
      else if within_near_of g fd we b \<noteq> [] \<or> near_candidates_of g a \<noteq> []
              \<or> near_candidates_of g b \<noteq> [] then [a, b]
      else if within_near_of g fd we c \<noteq> [] then [a, b, c]
      else [a, b, c, d])"
proof -
  let ?s0 = "\<lparr>chosen_hotel = None, chosen_hotel_method = None, fallback_tried = []\<rparr>"
  let ?s1 = "city_loop g fd we [a, b] ?s0"
  have s0: "chosen_hotel ?s0 = None" "chosen_hotel_method ?s0 = None" by simp_all
  note p1 = city_loop_pair [OF s0, of g fd we a b]
  show ?thesis
  proof (cases "within_near_of g fd we a \<noteq> [] \<or> within_near_of g fd we b \<noteq> []
                \<or> near_candidates_of g a \<noteq> [] \<or> near_candidates_of g b \<noteq> []")
    case True
    then have "chosen_hotel ?s1 \<noteq> None"
      unfolding p1
      using next_available_of_Some_no_window [of g fd we a]
        next_available_of_Some_no_window [of g fd we b]
      by auto
    then have eq: "group_loop g fd we [[a, b], [c, d]] ?s0 = ?s1"
      unfolding group_loop_two_pairs by (simp add: Let_def)
    show ?thesis unfolding eq p1 using True by auto
  next
    case False
    then have e1: "?s1 = ?s0\<lparr>fallback_tried := [a, b]\<rparr>" unfolding p1 by simp
    have s1: "chosen_hotel (?s0\<lparr>fallback_tried := [a, b]\<rparr>) = None"
      "chosen_hotel_method (?s0\<lparr>fallback_tried := [a, b]\<rparr>) = None" by simp_all
    have eq: "group_loop g fd we [[a, b], [c, d]] ?s0
            = city_loop g fd we [c, d] (?s0\<lparr>fallback_tried := [a, b]\<rparr>)"
      unfolding group_loop_two_pairs Let_def e1 by simp
    show ?thesis unfolding eq city_loop_pair [OF s1] using False by simp
  qed
qed

lemma cascade_nothing:
  "chosen_hotel (group_loop g fd we [[a, b], [c, d]]
      \<lparr>chosen_hotel = None, chosen_hotel_method = None, fallback_tried = []\<rparr>) = None
   \<longleftrightarrow> near_candidates_of g a = [] \<and> near_candidates_of g b = []
       \<and> near_candidates_of g c = [] \<and> near_candidates_of g d = []"
proof -
  let ?s0 = "\<lparr>chosen_hotel = None, chosen_hotel_method = None, fallback_tried = []\<rparr>"
  let ?s1 = "city_loop g fd we [a, b] ?s0"
  have s0: "chosen_hotel ?s0 = None" "chosen_hotel_method ?s0 = None" by simp_all
  note p1 = city_loop_pair [OF s0, of g fd we a b]
  have pick: "chosen_hotel (city_loop g fd we [x, y] s) = None
      \<longleftrightarrow> near_candidates_of g x = [] \<and> near_candidates_of g y = []"
    if "chosen_hotel s = None" "chosen_hotel_method s = None" for x y s
    unfolding city_loop_pair [OF that]
    using next_available_of_Some_no_window [of g fd we x]
      next_available_of_Some_no_window [of g fd we y]
      within_near_of_no_rows [of g x fd we] within_near_of_no_rows [of g y fd we] that
    by auto
  show ?thesis
  proof (cases "chosen_hotel ?s1 = None")
    case False
    then have eq: "group_loop g fd we [[a, b], [c, d]] ?s0 = ?s1"
      unfolding group_loop_two_pairs by (simp add: Let_def)
    show ?thesis unfolding eq using False pick [OF s0, of a b] by auto
  next
    case True
    then have ab: "near_candidates_of g a = [] \<and> near_candidates_of g b = []"
      using pick [OF s0, of a b] by simp
    then have e1: "?s1 = ?s0\<lparr>fallback_tried := [a, b]\<rparr>"
      unfolding p1 by (simp add: within_near_of_no_rows)
    have s1: "chosen_hotel (?s0\<lparr>fallback_tried := [a, b]\<rparr>) = None"
      "chosen_hotel_method (?s0\<lparr>fallback_tried := [a, b]\<rparr>) = None" by simp_all
    have eq: "group_loop g fd we [[a, b], [c, d]] ?s0
            = city_loop g fd we [c, d] (?s0\<lparr>fallback_tried := [a, b]\<rparr>)"
      unfolding group_loop_two_pairs Let_def e1 by simp
    show ?thesis unfolding eq using pick [OF s1, of c d] ab by simp
  qed
qed

section \<open>The shape of a planning result\<close>

lemma escape_at_None: "c \<noteq> CHR 0x5C \<Longrightarrow> escape_at (c # cs) = None"
  by (cases cs) (simp_all add: escape_at_def)

lemma expand_plain: "plain t \<Longrightarrow> expand t = Some t"
proof (induction t)
  case Nil
  show ?case by simp
next
  case (Cons c cs)
  from Cons.prems have "c \<noteq> CHR 0x5C" and "plain cs" by (simp_all add: plain_def)
  then show ?case using Cons.IH by (simp add: escape_at_None)
qed

text \<open>A plain text is read as itself.\<close>

lemma interpolated_plain: "plain t \<Longrightarrow> interpolated t = Some t"
  by (simp add: interpolated_def expandUnicodeEscapes_def expand_plain)

lemma cascade_cities_plain:
  "\<forall>c\<in>set (nearby_cities_immediate @ nearby_cities_region). interpolated c = Some c"
  by (simp add: nearby_cities_immediate_def nearby_cities_region_def interpolated_plain plain_def)

lemma query_flights_literal:
  "interpolated departure = Some d \<Longrightarrow> interpolated arrival = Some a \<Longrightarrow>
     query_flights eng g departure arrival = Inr (flights_matching g d a)"
  by (simp add: query_flights_def)

lemma query_hotels_literal:
  "interpolated arrival = Some a \<Longrightarrow> query_hotels eng g arrival = Inr (hotels_located g a)"
  by (simp add: query_hotels_def)

text \<open>The queries of the cascade are the hotel rows located in the city pasted.\<close>

lemma cascade_query:
  "c \<in> set (nearby_cities_immediate @ nearby_cities_region) \<Longrightarrow>
     query_hotels eng g c = Inr (hotels_located g c)"
  using cascade_cities_plain by (simp add: query_hotels_literal)

text \<open>A text with a double quote is not read as a literal: the engine decides.\<close>

lemma quoted_text_deferred:
  "query_flights eng g (''Chennai'' @ [CHR 0x22]) arrival
     = deferred_flights eng g (''Chennai'' @ [CHR 0x22]) arrival"
  by (simp add: query_flights_def interpolated_def expandUnicodeEscapes_def escape_at_def
      plain_def)

lemma flight_candidates_of_Nil:
  "flight_candidates_of g d a = [] \<longleftrightarrow>
     (\<forall>r\<in>set (flights g). \<not> (f_dep r = d \<and> f_arr r = a))"
  by (auto simp: flight_candidates_of_def flights_matching_def sort_key_Nil_iff filter_empty_conv)

lemma hd_flight_candidates_of:
  assumes "flight_candidates_of g d a \<noteq> []"
  shows "\<exists>b\<in>set (flights g). f_dep b = d \<and> f_arr b = a
           \<and> hd (flight_candidates_of g d a) = flight_candidate b
           \<and> (\<forall>r\<in>set (flights g). f_dep r = d \<and> f_arr r = a \<longrightarrow> f_price b \<le> f_price r)"
proof -
  let ?m = "filter (\<lambda>r. f_dep r = d \<and> f_arr r = a) (flights g)"
  let ?b = "hd (sort_key f_price ?m)"
  from assms have ne: "?m \<noteq> []"
    by (auto simp: flight_candidates_of_def flights_matching_def)
  then have "?b \<in> set ?m" by (rule hd_sort_key_mem)
  moreover have "\<forall>r\<in>set ?m. f_price ?b \<le> f_price r"
    by (simp add: hd_sort_key_least)
  moreover have "hd (flight_candidates_of g d a) = flight_candidate ?b"
    using ne by (simp add: flight_candidates_of_def flights_matching_def hd_map sort_key_Nil_iff)
  ultimately show ?thesis by auto
qed

text \<open>The three ways in which the planner returns a dictionary.\<close>

lemma plan_from_flights_cases:
  assumes "plan_from_flights eng g arrival budget flex rows = Inr res"
  shows "(rows = [] \<and> res = no_flights_result)
   \<or> (rows \<noteq> [] \<and>
        (\<exists>we hrows. window_end_of (fc_date (hd (map flight_candidate rows))) flex = Inr we
          \<and> query_hotels eng g arrival = Inr hrows
          \<and> ((chosen_hotel (hotel_stage_rows g hrows
                   (fc_date (hd (map flight_candidate rows))) we) = None
                \<and> res = no_hotel_result)
             \<or> (\<exists>ch. chosen_hotel (hotel_stage_rows g hrows
                   (fc_date (hd (map flight_candidate rows))) we) = Some ch
                \<and> res = itinerary (map flight_candidate rows)
                         (hd (map flight_candidate rows)) ch
                         (chosen_hotel_method (hotel_stage_rows g hrows
                            (fc_date (hd (map flight_candidate rows))) we))
                         (select_taxi g (Some ch)) budget))))"
  using assms
  by (auto simp: plan_from_flights_def Let_def split: if_splits sum.splits option.splits)

lemma plan_cases:
  assumes "plan_trip_enhanced eng fi today g departure arrival ds budget flex = Inr res"
  shows "\<exists>rows. query_flights eng g departure arrival = Inr rows
           \<and> plan_from_flights eng g arrival budget flex rows = Inr res"
  using assms by (auto simp: plan_trip_enhanced_def Let_def split: sum.splits)

text \<open>The planner on a request whose two texts are read as literals.\<close>

lemma plan_trip_enhanced_literals:
  assumes "interpolated departure = Some d" and "interpolated arrival = Some a"
  shows "plan_trip_enhanced eng fi today g departure arrival ds budget flex
       = (if flight_candidates_of g d a = [] then Inr no_flights_result
          else case window_end_of (fc_date (hd (flight_candidates_of g d a))) flex of
                 Inl e \<Rightarrow> Inl e
               | Inr we \<Rightarrow>
                   (case chosen_hotel
                           (hotel_stage g a (fc_date (hd (flight_candidates_of g d a))) we) of
                      None \<Rightarrow> Inr no_hotel_result
                    | Some ch \<Rightarrow>
                        Inr (itinerary (flight_candidates_of g d a)
                               (hd (flight_candidates_of g d a)) ch
                               (chosen_hotel_method
                                  (hotel_stage g a
                                     (fc_date (hd (flight_candidates_of g d a))) we))
                               (select_taxi g (Some ch)) budget)))"
  by (simp add: plan_trip_enhanced_def plan_from_flights_def query_flights_literal [OF assms]
      query_hotels_literal [OF assms(2)] flight_candidates_of_def hotel_stage_def Let_def
      split: sum.splits option.splits)

lemmas plain_text = interpolated_plain plain_def

text \<open>The fields of the three dictionaries.\<close>

lemma itinerary_fields:
  "flight (itinerary cands bf ch m t budget) = Some bf"
  "hotel (itinerary cands bf ch m t budget) = Some ch"
  "taxi (itinerary cands bf ch m t budget) = t"
  "flight_candidates (itinerary cands bf ch m t budget) = Some cands"
  "message (itinerary cands bf ch m t budget) = None"
  "status (itinerary cands bf ch m t budget) \<noteq> NoFlights"
  "status (itinerary cands bf ch m t budget) \<noteq> NoHotelAnywhere"
  by (simp_all add: itinerary_def Let_def)

lemma failure_fields:
  "status no_flights_result = NoFlights" "status no_hotel_result = NoHotelAnywhere"
  "flight no_flights_result = None" "flight no_hotel_result = None"
  "hotel no_flights_result = None" "hotel no_hotel_result = None"
  "taxi no_flights_result = None" "taxi no_hotel_result = None"
  "total_cost no_flights_result = None" "total_cost no_hotel_result = None"
  "explanation no_flights_result = None" "explanation no_hotel_result = None"
  "flight_candidates no_flights_result = None" "flight_candidates no_hotel_result = None"
  "message no_flights_result = Some ''No flights found for route.''"
  "message no_hotel_result
     = Some ''No hotel found in city or nearby; recommend adjusting date or city.''"
  by (simp_all add: no_flights_result_def no_hotel_result_def)

lemma plan_shape:
  assumes "plan_trip_enhanced eng fi today g departure arrival ds budget flex = Inr res"
  shows "\<exists>rows. query_flights eng g departure arrival = Inr rows
           \<and> ((rows = [] \<and> res = no_flights_result)
              \<or> (rows \<noteq> [] \<and>
                   (res = no_hotel_result
                    \<or> (\<exists>ch m. res = itinerary (map flight_candidate rows)
                                  (hd (map flight_candidate rows)) ch m
                                  (select_taxi g (Some ch)) budget))))"
proof -
  from plan_cases [OF assms] obtain rows where
    q: "query_flights eng g departure arrival = Inr rows"
    and p: "plan_from_flights eng g arrival budget flex rows = Inr res" by blast
  from plan_from_flights_cases [OF p] q show ?thesis by blast
qed

lemma demo_plan:
  "\<exists>res f h. plan_trip_enhanced strict_engine iso_sample 0 (catalog demo_hotels)
                ''Chennai'' ''Delhi'' ''2025-11-05'' budget 2 = Inr res
     \<and> flight res = Some f \<and> hotel res = Some h \<and> fc_price f = 6500
     \<and> hc_price h = 2500 \<and> hc_uri h = ''Hotel2''
     \<and> map_option tc_price (taxi res) = Some 900"
  by (simp add: mk_flight_def mk_hotel_def mk_taxi_def iso_sample_def demo_flights_def
      demo_taxis_def demo_hotels_def catalog_def query_defs hotel_defs plan_defs plain_text Let_def)

section \<open>Cost evaluation\<close>

text \<open>
  C4. Whenever the returned result carries a flight and a hotel, its total cost is the flight
  price plus the hotel price plus the taxi price (0 without a taxi), and its status is OK
  when that total is at most the budget and OverBudget otherwise; a total equal to the
  budget is OK.
\<close>

theorem total_cost_and_status:
  assumes "plan_trip_enhanced eng fi today g departure arrival ds budget flex = Inr res"
    and "flight res = Some f" and "hotel res = Some h"
  shows "total_cost res
           = Some (fc_price f + hc_price h + (case taxi res of Some t \<Rightarrow> tc_price t | None \<Rightarrow> 0))
       \<and> status res
           = (if fc_price f + hc_price h + (case taxi res of Some t \<Rightarrow> tc_price t | None \<Rightarrow> 0)
                 \<le> budget
              then OK else OverBudget)"
  using plan_shape [OF assms(1)] assms(2,3)
  by (auto simp: failure_fields itinerary_def Let_def)

theorem total_cost_and_status_witness:
  "(\<exists>res f h. plan_trip_enhanced strict_engine iso_sample 0 (catalog demo_hotels)
                 ''Chennai'' ''Delhi'' ''2025-11-05'' 9900 2 = Inr res
      \<and> flight res = Some f \<and> hotel res = Some h
      \<and> total_cost res = Some 9900 \<and> status res = OK)
   \<and> (\<exists>res f h. plan_trip_enhanced strict_engine iso_sample 0 (catalog demo_hotels)
                 ''Chennai'' ''Delhi'' ''2025-11-05'' 9899 2 = Inr res
      \<and> flight res = Some f \<and> hotel res = Some h
      \<and> total_cost res = Some 9900 \<and> status res = OverBudget)"
proof -
  have "\<exists>res f h. plan_trip_enhanced strict_engine iso_sample 0 (catalog demo_hotels)
                 ''Chennai'' ''Delhi'' ''2025-11-05'' budget 2 = Inr res
      \<and> flight res = Some f \<and> hotel res = Some h
      \<and> total_cost res = Some 9900 \<and> status res = (if 9900 \<le> budget then OK else OverBudget)"
    for budget
  proof -
    obtain res f h where e:
      "plan_trip_enhanced strict_engine iso_sample 0 (catalog demo_hotels)
         ''Chennai'' ''Delhi'' ''2025-11-05'' budget 2 = Inr res"
      "flight res = Some f" "hotel res = Some h" "fc_price f = 6500" "hc_price h = 2500"
      "map_option tc_price (taxi res) = Some 900"
      using demo_plan [of budget] by blast
    from e(6) obtain t where t: "taxi res = Some t" "tc_price t = 900" by auto
    from total_cost_and_status [OF e(1) e(2) e(3)] e(4,5) t
    have "total_cost res = Some 9900 \<and> status res = (if 9900 \<le> budget then OK else OverBudget)"
      by simp
    with e(1,2,3) show ?thesis by blast
  qed
  from this [of 9900] this [of 9899] show ?thesis by simp
qed

section \<open>The travel date\<close>

text \<open>
  C8. With the query engine, the catalog, the departure, the arrival, the budget and the
  window size fixed, the planner returns the same result (or raises the same exception) for
  any two travel-date inputs, whatever the parser makes of them and whatever the current
  date is: the parsed date is bound to \<^verbatim>\<open>arrival_date\<close> and never read.
\<close>

theorem travel_date_is_ignored:
  "plan_trip_enhanced eng fi today g departure arrival ds budget flex
   = plan_trip_enhanced eng fi' today' g departure arrival ds' budget flex"
  by (simp add: plan_trip_enhanced_def Let_def)

section \<open>A provisional pick and the rest of the cascade\<close>

text \<open>
  C1, as the code has it. Let a group of cities be scanned from a state without a choice,
  let its cities before \<open>c0\<close> have no hotel rows, and let \<open>c0\<close> have no in-window hotel
  but a next-available one \<open>p\<close>. Then the scan of this group goes on: every later city of the
  group is tried up to and including the first one with an in-window hotel, whose best
  in-window hotel replaces \<open>p\<close>; if no later city of the group has one, all of them are
  tried and \<open>p\<close> stays, whatever their own next-available candidates are. With \<open>p\<close> or
  its replacement chosen, the outer loop stops after this group: no later group is scanned.
\<close>

theorem provisional_pick_within_tier:
  assumes "chosen_hotel s = None" and "chosen_hotel_method s = None"
    and "\<forall>c\<in>set pre. near_candidates_of g c = []"
    and "within_near_of g fd we c0 = []"
    and "next_available_of fd (near_candidates_of g c0) = Some p"
  shows "city_loop g fd we (pre @ c0 # rest) s
       = (case dropWhile (\<lambda>c. within_near_of g fd we c = []) rest of
            [] \<Rightarrow> s\<lparr>fallback_tried := fallback_tried s @ pre @ c0 # rest,
                     chosen_hotel := Some p,
                     chosen_hotel_method := Some (''NearbyCityNextAvail:'' @ c0)\<rparr>
          | c # _ \<Rightarrow>
              s\<lparr>fallback_tried := fallback_tried s @ pre @ c0 #
                     takeWhile (\<lambda>c. within_near_of g fd we c = []) rest @ [c],
                chosen_hotel := Some (hd (sort_key rank_key (within_near_of g fd we c))),
                chosen_hotel_method := Some (''NearbyCity:'' @ c)\<rparr>)
     \<and> group_loop g fd we ((pre @ c0 # rest) # later) s = city_loop g fd we (pre @ c0 # rest) s"
proof -
  let ?s1 = "s\<lparr>fallback_tried := fallback_tried s @ pre\<rparr>"
  let ?s2 = "?s1\<lparr>fallback_tried := fallback_tried ?s1 @ [c0], chosen_hotel := Some p,
                chosen_hotel_method := Some (''NearbyCityNextAvail:'' @ c0)\<rparr>"
  have a: "city_loop g fd we (pre @ c0 # rest) s = city_loop g fd we rest ?s2"
    using city_loop_skip_prefix [OF assms(3), of fd we "c0 # rest" s]
      city_loop_provisional [OF assms(4) _ _ assms(5), where s = ?s1 and rest = rest] assms(1,2)
    by simp
  have b: "chosen_hotel ?s2 \<noteq> None" by simp
  have c: "chosen_hotel (city_loop g fd we (pre @ c0 # rest) s) \<noteq> None"
    unfolding a using b by (rule city_loop_keeps_choice)
  have "city_loop g fd we (pre @ c0 # rest) s
       = (case dropWhile (\<lambda>c. within_near_of g fd we c = []) rest of
            [] \<Rightarrow> s\<lparr>fallback_tried := fallback_tried s @ pre @ c0 # rest,
                     chosen_hotel := Some p,
                     chosen_hotel_method := Some (''NearbyCityNextAvail:'' @ c0)\<rparr>
          | c # _ \<Rightarrow>
              s\<lparr>fallback_tried := fallback_tried s @ pre @ c0 #
                     takeWhile (\<lambda>c. within_near_of g fd we c = []) rest @ [c],
                chosen_hotel := Some (hd (sort_key rank_key (within_near_of g fd we c))),
                chosen_hotel_method := Some (''NearbyCity:'' @ c)\<rparr>)"
  proof (cases "dropWhile (\<lambda>c. within_near_of g fd we c = []) rest")
    case Nil
    show ?thesis unfolding a city_loop_pinned [OF b] Nil by simp
  next
    case (Cons d ds)
    show ?thesis unfolding a city_loop_pinned [OF b] Cons by simp
  qed
  moreover have "group_loop g fd we ((pre @ c0 # rest) # later) s
                   = city_loop g fd we (pre @ c0 # rest) s"
    using c by (simp add: Let_def)
  ultimately show ?thesis by simp
qed

theorem provisional_pick_within_tier_witness:
  "city_loop (catalog [late_gurugram, late_noida, ghaziabad_now]) 739560 739562
       [''Gurugram'', ''Noida''] empty_state
     = \<lparr>chosen_hotel = Some (hotel_candidate (Some ''Gurugram'') late_gurugram),
        chosen_hotel_method = Some ''NearbyCityNextAvail:Gurugram'',
        fallback_tried = [''Gurugram'', ''Noida'']\<rparr>
   \<and> group_loop (catalog [late_gurugram, late_noida, ghaziabad_now]) 739560 739562
       [[''Gurugram'', ''Noida''], [''Ghaziabad'', ''Faridabad'']] empty_state
     = city_loop (catalog [late_gurugram, late_noida, ghaziabad_now]) 739560 739562
       [''Gurugram'', ''Noida''] empty_state
   \<and> city_loop (catalog [late_gurugram, noida_now]) 739560 739562
       [''Gurugram'', ''Noida''] empty_state
     = \<lparr>chosen_hotel = Some (hotel_candidate (Some ''Noida'') noida_now),
        chosen_hotel_method = Some ''NearbyCity:Noida'',
        fallback_tried = [''Gurugram'', ''Noida'']\<rparr>"
proof -
  let ?g = "catalog [late_gurugram, late_noida, ghaziabad_now]"
  let ?g' = "catalog [late_gurugram, noida_now]"
  let ?p = "hotel_candidate (Some ''Gurugram'') late_gurugram"
  have s: "chosen_hotel empty_state = None" "chosen_hotel_method empty_state = None"
    by (simp_all add: empty_state_def)
  have pre: "\<forall>c\<in>set []. near_candidates_of g c = []" for g by simp
  have w: "within_near_of ?g 739560 739562 ''Gurugram'' = []"
    "within_near_of ?g' 739560 739562 ''Gurugram'' = []"
    by (simp_all add: mk_flight_def mk_hotel_def mk_taxi_def empty_state_def demo_flights_def
        demo_taxis_def catalog_def late_gurugram_def late_noida_def noida_now_def
        ghaziabad_now_def query_defs hotel_defs)
  have n: "next_available_of 739560 (near_candidates_of ?g ''Gurugram'') = Some ?p"
    "next_available_of 739560 (near_candidates_of ?g' ''Gurugram'') = Some ?p"
    by (simp_all add: mk_flight_def mk_hotel_def mk_taxi_def empty_state_def demo_flights_def
        demo_taxis_def catalog_def late_gurugram_def late_noida_def noida_now_def
        ghaziabad_now_def query_defs hotel_defs)
  have r: "dropWhile (\<lambda>c. within_near_of ?g 739560 739562 c = []) [''Noida''] = []"
    "dropWhile (\<lambda>c. within_near_of ?g' 739560 739562 c = []) [''Noida''] = [''Noida'']"
    "takeWhile (\<lambda>c. within_near_of ?g' 739560 739562 c = []) [''Noida''] = []"
    "hd (sort_key rank_key (within_near_of ?g' 739560 739562 ''Noida''))
       = hotel_candidate (Some ''Noida'') noida_now"
    by (simp_all add: mk_flight_def mk_hotel_def mk_taxi_def empty_state_def demo_flights_def
        demo_taxis_def catalog_def late_gurugram_def late_noida_def noida_now_def
        ghaziabad_now_def query_defs hotel_defs)
  from provisional_pick_within_tier [OF s pre w(1) n(1),
      of "[''Noida'']" "[[''Ghaziabad'', ''Faridabad'']]", unfolded r]
    provisional_pick_within_tier [OF s pre w(2) n(2), of "[''Noida'']" "[]", unfolded r]
  show ?thesis by (simp add: empty_state_def r(4))
qed

text \<open>
  C1 as it is written fails: with a late hotel in Gurugram and a hotel inside the
  window in Ghaziabad, the Gurugram pick is returned and Ghaziabad, of the region group, is
  not among the cities tried.
\<close>

theorem region_tier_skipped_after_provisional_pick:
  "hotel_stage (catalog [late_gurugram, ghaziabad_now]) ''Delhi'' 739560 739562
     = \<lparr>chosen_hotel = Some (hotel_candidate (Some ''Gurugram'') late_gurugram),
        chosen_hotel_method = Some ''NearbyCityNextAvail:Gurugram'',
        fallback_tried = [''Gurugram'', ''Noida'']\<rparr>
   \<and> within_near_of (catalog [late_gurugram, ghaziabad_now]) 739560 739562 ''Ghaziabad''
     = [hotel_candidate (Some ''Ghaziabad'') ghaziabad_now]"
  by (simp add: mk_flight_def mk_hotel_def mk_taxi_def demo_flights_def demo_taxis_def
      catalog_def late_gurugram_def ghaziabad_now_def query_defs hotel_defs Let_def)

section \<open>The cities of the cascade\<close>

lemma hotel_stage_cascade:
  "filtered_of g arrival fd we = [] \<Longrightarrow>
     hotel_stage g arrival fd we
       = group_loop g fd we [[''Gurugram'', ''Noida''], [''Ghaziabad'', ''Faridabad'']]
           \<lparr>chosen_hotel = None, chosen_hotel_method = None, fallback_tried = []\<rparr>"
  by (simp add: hotel_stage_def hotel_stage_rows_def filtered_of_def hotel_candidates_of_def
      Let_def nearby_cities_immediate_def nearby_cities_region_def del: group_loop.simps)

text \<open>
  C9, as the code has it. The two groups are the constants Gurugram, Noida and Ghaziabad,
  Faridabad. When the arrival city has no in-window hotel, the cities tried are an initial
  segment of these four in this order, fixed by the hotel rows of the four cities, the flight
  date and the window end alone, never by the arrival city: Gurugram only when it has an
  in-window hotel; Gurugram and Noida when Noida has one or either of them has any hotel
  row; the first three when neither has a row and Ghaziabad has an in-window hotel; all four
  otherwise.
\<close>

theorem cascade_cities_consulted:
  assumes "filtered_of g arrival fd we = []"
  shows "nearby_cities_immediate = [''Gurugram'', ''Noida'']
       \<and> nearby_cities_region = [''Ghaziabad'', ''Faridabad'']
       \<and> fallback_tried (hotel_stage g arrival fd we)
         = (if within_near_of g fd we ''Gurugram'' \<noteq> [] then [''Gurugram'']
            else if within_near_of g fd we ''Noida'' \<noteq> []
                    \<or> near_candidates_of g ''Gurugram'' \<noteq> []
                    \<or> near_candidates_of g ''Noida'' \<noteq> []
                 then [''Gurugram'', ''Noida'']
            else if within_near_of g fd we ''Ghaziabad'' \<noteq> []
                 then [''Gurugram'', ''Noida'', ''Ghaziabad'']
            else [''Gurugram'', ''Noida'', ''Ghaziabad'', ''Faridabad''])"
  unfolding hotel_stage_cascade [OF assms] cascade_tried
  by (simp add: nearby_cities_immediate_def nearby_cities_region_def)

theorem cascade_cities_consulted_witness:
  "filtered_of (catalog [late_mumbai]) ''Mumbai'' 739560 739562 = []
   \<and> fallback_tried (hotel_stage (catalog [late_mumbai]) ''Mumbai'' 739560 739562)
       = [''Gurugram'', ''Noida'', ''Ghaziabad'', ''Faridabad'']
   \<and> filtered_of (catalog [late_delhi, late_gurugram]) ''Delhi'' 739560 739562 = []
   \<and> fallback_tried (hotel_stage (catalog [late_delhi, late_gurugram]) ''Delhi'' 739560 739562)
       = [''Gurugram'', ''Noida'']"
proof -
  have f: "filtered_of (catalog [late_mumbai]) ''Mumbai'' 739560 739562 = []"
    "filtered_of (catalog [late_delhi, late_gurugram]) ''Delhi'' 739560 739562 = []"
    by (simp_all add: mk_flight_def mk_hotel_def mk_taxi_def demo_flights_def demo_taxis_def
        catalog_def late_delhi_def late_mumbai_def late_gurugram_def query_defs hotel_defs)
  have e: "within_near_of (catalog [late_mumbai]) 739560 739562 c = []"
    "near_candidates_of (catalog [late_mumbai]) ''Gurugram'' = []"
    "near_candidates_of (catalog [late_mumbai]) ''Noida'' = []"
    "within_near_of (catalog [late_delhi, late_gurugram]) 739560 739562 ''Gurugram'' = []"
    "near_candidates_of (catalog [late_delhi, late_gurugram]) ''Gurugram'' \<noteq> []" for c
    by (simp_all add: mk_flight_def mk_hotel_def mk_taxi_def demo_flights_def demo_taxis_def
        catalog_def late_delhi_def late_mumbai_def late_gurugram_def query_defs hotel_defs)
  from cascade_cities_consulted [OF f(1)] cascade_cities_consulted [OF f(2)] f e
  show ?thesis by simp
qed

text \<open>
  C9 as it is written fails: with an in-window hotel in Noida the cascade stops
  there, and Ghaziabad and Faridabad are not tried.
\<close>

theorem cascade_stops_at_first_match:
  "filtered_of (catalog [late_delhi, noida_now, ghaziabad_now]) ''Delhi'' 739560 739562 = []
   \<and> hotel_stage (catalog [late_delhi, noida_now, ghaziabad_now]) ''Delhi'' 739560 739562
       = \<lparr>chosen_hotel = Some (hotel_candidate (Some ''Noida'') noida_now),
          chosen_hotel_method = Some ''NearbyCity:Noida'',
          fallback_tried = [''Gurugram'', ''Noida'']\<rparr>"
  by (simp add: mk_flight_def mk_hotel_def mk_taxi_def demo_flights_def demo_taxis_def
      catalog_def late_delhi_def noida_now_def ghaziabad_now_def query_defs hotel_defs Let_def)

section \<open>A late hotel in the arrival city\<close>

lemma near_candidates_of_Nil:
  "near_candidates_of g c = [] \<longleftrightarrow> (\<forall>r\<in>set (hotels g). h_location r \<noteq> c)"
  by (auto simp: near_candidates_of_def hotels_located_def sort_key_Nil_iff filter_empty_conv)

lemma near_candidates_of_mem:
  "h \<in> set (near_candidates_of g c) \<longleftrightarrow>
     (\<exists>r\<in>set (hotels g). h_location r = c \<and> h = hotel_candidate (Some c) r)"
  by (auto simp: near_candidates_of_def hotels_located_def)

text \<open>
  C10, as the code has it. Let the flight query give a flight, the window end be a date, the
  exact-city hotel query hold the literal \<open>a\<close>, and that city have no in-window hotel. Then
  the exact-city next-available candidate has no effect: the hotel stage gives what it gives
  for an arrival city without any hotel row. The hotel of any returned result is built from
  a hotel row located in one of the four cascade cities, and when no hotel row is located in
  any of the four cities the result is the NoHotelAnywhere one, whatever later hotels the
  arrival city has. A hotel of the arrival city that is available only after the window is
  therefore selected only through a row located in a cascade city: when the arrival city is
  itself one of the four, or when the hotel is also located in one of them.
\<close>

theorem late_arrival_city_hotel:
  assumes "query_flights eng g departure arrival = Inr rows" and "rows \<noteq> []"
    and "window_end_of (fc_date (hd (map flight_candidate rows))) flex = Inr we"
    and "interpolated arrival = Some a"
    and "filtered_of g a (fc_date (hd (map flight_candidate rows))) we = []"
  shows "hotel_stage g a (fc_date (hd (map flight_candidate rows))) we
           = hotel_stage_rows g [] (fc_date (hd (map flight_candidate rows))) we
       \<and> (\<forall>res h. plan_trip_enhanced eng fi today g departure arrival ds budget flex = Inr res
              \<and> hotel res = Some h \<longrightarrow>
            (\<exists>c\<in>set (nearby_cities_immediate @ nearby_cities_region).
               \<exists>r\<in>set (hotels g). h_location r = c \<and> h = hotel_candidate (Some c) r))
       \<and> (\<forall>res h. plan_trip_enhanced eng fi today g departure arrival ds budget flex = Inr res
              \<and> hotel res = Some h \<longrightarrow>
            a \<in> set (nearby_cities_immediate @ nearby_cities_region)
            \<or> (\<exists>r\<in>set (hotels g). h_uri r = hc_uri h \<and> h_location r \<noteq> a
                  \<and> h_location r \<in> set (nearby_cities_immediate @ nearby_cities_region)))
       \<and> ((\<forall>r\<in>set (hotels g). h_location r \<notin> set (nearby_cities_immediate @ nearby_cities_region))
            \<longrightarrow> plan_trip_enhanced eng fi today g departure arrival ds budget flex
                  = Inr no_hotel_result
                \<and> status no_hotel_result = NoHotelAnywhere)"
proof -
  let ?cands = "map flight_candidate rows"
  let ?fd = "fc_date (hd ?cands)"
  let ?s0 = "\<lparr>chosen_hotel = None, chosen_hotel_method = None, fallback_tried = []\<rparr>"
  let ?tiers = "[[''Gurugram'', ''Noida''], [''Ghaziabad'', ''Faridabad'']]"
  note stage = hotel_stage_cascade [OF assms(5)]
  have none: "hotel_stage g a ?fd we = hotel_stage_rows g [] ?fd we"
    unfolding stage
    by (simp add: hotel_stage_rows_def remove_duplicates_def within_window_of_def Let_def
        nearby_cities_immediate_def nearby_cities_region_def del: group_loop.simps)
  have plan: "plan_trip_enhanced eng fi today g departure arrival ds budget flex
      = (case chosen_hotel (hotel_stage g a ?fd we) of
           None \<Rightarrow> Inr no_hotel_result
         | Some ch \<Rightarrow>
             Inr (itinerary ?cands (hd ?cands) ch
                    (chosen_hotel_method (hotel_stage g a ?fd we))
                    (select_taxi g (chosen_hotel (hotel_stage g a ?fd we))) budget))"
    using assms(1,2,3) query_hotels_literal [OF assms(4), of eng g]
    by (simp add: plan_trip_enhanced_def plan_from_flights_def hotel_stage_def Let_def
        split: option.splits)
  have origin: "\<exists>c\<in>set (nearby_cities_immediate @ nearby_cities_region).
               \<exists>r\<in>set (hotels g). h_location r = c \<and> h = hotel_candidate (Some c) r"
    if "chosen_hotel (hotel_stage g a ?fd we) = Some h" for h
  proof -
    from that group_loop_choice_origin [of g ?fd we ?tiers ?s0 h]
    have "\<exists>c\<in>set (concat ?tiers). h \<in> set (near_candidates_of g c)"
      unfolding stage by simp
    then show ?thesis
      unfolding near_candidates_of_mem
      by (simp add: nearby_cities_immediate_def nearby_cities_region_def)
  qed
  have picked: "\<forall>res h. plan_trip_enhanced eng fi today g departure arrival ds budget flex = Inr res
              \<and> hotel res = Some h \<longrightarrow>
            (\<exists>c\<in>set (nearby_cities_immediate @ nearby_cities_region).
               \<exists>r\<in>set (hotels g). h_location r = c \<and> h = hotel_candidate (Some c) r)"
  proof (intro allI impI)
    fix res h
    assume r: "plan_trip_enhanced eng fi today g departure arrival ds budget flex = Inr res
               \<and> hotel res = Some h"
    show "\<exists>c\<in>set (nearby_cities_immediate @ nearby_cities_region).
               \<exists>r\<in>set (hotels g). h_location r = c \<and> h = hotel_candidate (Some c) r"
    proof (cases "chosen_hotel (hotel_stage g a ?fd we)")
      case None
      with r show ?thesis unfolding plan by (auto simp: failure_fields)
    next
      case (Some ch)
      with r have "h = ch" unfolding plan by (auto simp: itinerary_fields)
      with Some origin show ?thesis by simp
    qed
  qed
  have no_city: "plan_trip_enhanced eng fi today g departure arrival ds budget flex
                   = Inr no_hotel_result"
    if "\<forall>r\<in>set (hotels g). h_location r \<notin> set (nearby_cities_immediate @ nearby_cities_region)"
  proof -
    from that have "near_candidates_of g ''Gurugram'' = [] \<and> near_candidates_of g ''Noida'' = []
       \<and> near_candidates_of g ''Ghaziabad'' = [] \<and> near_candidates_of g ''Faridabad'' = []"
      unfolding near_candidates_of_Nil
      by (simp add: nearby_cities_immediate_def nearby_cities_region_def)
    then have "chosen_hotel (hotel_stage g a ?fd we) = None"
      unfolding stage cascade_nothing by simp
    then show ?thesis unfolding plan by simp
  qed
  have located: "\<forall>res h. plan_trip_enhanced eng fi today g departure arrival ds budget flex = Inr res
              \<and> hotel res = Some h \<longrightarrow>
            a \<in> set (nearby_cities_immediate @ nearby_cities_region)
            \<or> (\<exists>r\<in>set (hotels g). h_uri r = hc_uri h \<and> h_location r \<noteq> a
                  \<and> h_location r \<in> set (nearby_cities_immediate @ nearby_cities_region))"
  proof (intro allI impI)
    fix res h
    assume "plan_trip_enhanced eng fi today g departure arrival ds budget flex = Inr res
              \<and> hotel res = Some h"
    with picked obtain c r where cr: "c \<in> set (nearby_cities_immediate @ nearby_cities_region)"
      "r \<in> set (hotels g)" "h_location r = c" "h = hotel_candidate (Some c) r" by blast
    from cr(4) have "h_uri r = hc_uri h" by (simp add: hotel_candidate_def)
    with cr(1,2,3) show "a \<in> set (nearby_cities_immediate @ nearby_cities_region)
            \<or> (\<exists>r\<in>set (hotels g). h_uri r = hc_uri h \<and> h_location r \<noteq> a
                  \<and> h_location r \<in> set (nearby_cities_immediate @ nearby_cities_region))"
      by (cases "c = a") auto
  qed
  show ?thesis
  proof (intro conjI impI)
    show "hotel_stage g a ?fd we = hotel_stage_rows g [] ?fd we" by (rule none)
    show "\<forall>res h. plan_trip_enhanced eng fi today g departure arrival ds budget flex = Inr res
              \<and> hotel res = Some h \<longrightarrow>
            (\<exists>c\<in>set (nearby_cities_immediate @ nearby_cities_region).
               \<exists>r\<in>set (hotels g). h_location r = c \<and> h = hotel_candidate (Some c) r)"
      by (rule picked)
    show "\<forall>res h. plan_trip_enhanced eng fi today g departure arrival ds budget flex = Inr res
              \<and> hotel res = Some h \<longrightarrow>
            a \<in> set (nearby_cities_immediate @ nearby_cities_region)
            \<or> (\<exists>r\<in>set (hotels g). h_uri r = hc_uri h \<and> h_location r \<noteq> a
                  \<and> h_location r \<in> set (nearby_cities_immediate @ nearby_cities_region))"
      by (rule located)
  next
    assume h: "\<forall>r\<in>set (hotels g).
              h_location r \<notin> set (nearby_cities_immediate @ nearby_cities_region)"
    show "plan_trip_enhanced eng fi today g departure arrival ds budget flex
                 = Inr no_hotel_result" by (rule no_city [OF h])
    show "status no_hotel_result = NoHotelAnywhere" by (simp add: failure_fields)
  qed
qed

theorem late_arrival_city_hotel_witness:
  "plan_trip_enhanced strict_engine iso_sample 0 (catalog [late_delhi])
       ''Chennai'' ''Delhi'' ''2025-11-05'' 15000 2 = Inr no_hotel_result
   \<and> status no_hotel_result = NoHotelAnywhere
   \<and> hotel_stage (catalog [late_delhi]) ''Delhi'' 739560 739562
       = hotel_stage_rows (catalog [late_delhi]) [] 739560 739562
   \<and> (\<exists>res h c r. plan_trip_enhanced strict_engine iso_sample 0
                       (catalog [late_delhi, late_gurugram])
                       ''Chennai'' ''Delhi'' ''2025-11-05'' 15000 2 = Inr res
         \<and> hotel res = Some h \<and> c \<in> set (nearby_cities_immediate @ nearby_cities_region)
         \<and> r \<in> set (hotels (catalog [late_delhi, late_gurugram]))
         \<and> h_location r = c \<and> h = hotel_candidate (Some c) r)
   \<and> (\<exists>res h r. plan_trip_enhanced strict_engine iso_sample 0 (catalog two_city_hotel)
                       ''Chennai'' ''Delhi'' ''2025-11-05'' 15000 2 = Inr res
         \<and> hotel res = Some h \<and> hc_uri h = ''HotelX''
         \<and> r \<in> set (hotels (catalog two_city_hotel)) \<and> h_uri r = hc_uri h
         \<and> h_location r \<noteq> ''Delhi''
         \<and> h_location r \<in> set (nearby_cities_immediate @ nearby_cities_region))"
proof -
  let ?g = "catalog [late_delhi]" and ?g' = "catalog [late_delhi, late_gurugram]"
  let ?x = "catalog two_city_hotel"
  let ?rows = "[mk_flight ''Flight1'' ''Chennai'' ''Delhi'' 6500 ''IndiGo'' 739560,
                mk_flight ''Flight2'' ''Chennai'' ''Delhi'' 7200 ''Air India'' 739560,
                mk_flight ''Flight4'' ''Chennai'' ''Delhi'' 9000 ''SpiceJet'' 739558]"
  have q: "query_flights strict_engine ?g ''Chennai'' ''Delhi'' = Inr ?rows"
    "query_flights strict_engine ?g' ''Chennai'' ''Delhi'' = Inr ?rows"
    "query_flights strict_engine ?x ''Chennai'' ''Delhi'' = Inr ?rows"
    by (simp_all add: mk_flight_def mk_taxi_def demo_flights_def demo_taxis_def catalog_def
        query_flights_def flights_matching_def plain_text)
  have ne: "?rows \<noteq> []" by simp
  have w: "window_end_of (fc_date (hd (map flight_candidate ?rows))) 2 = Inr 739562"
    by (simp add: mk_flight_def flight_candidate_def window_end_of_def)
  have a: "interpolated ''Delhi'' = Some ''Delhi''" by (simp add: plain_text)
  have f: "filtered_of ?g ''Delhi'' (fc_date (hd (map flight_candidate ?rows))) 739562 = []"
    "filtered_of ?g' ''Delhi'' (fc_date (hd (map flight_candidate ?rows))) 739562 = []"
    "filtered_of ?x ''Delhi'' (fc_date (hd (map flight_candidate ?rows))) 739562 = []"
    by (simp_all add: mk_flight_def mk_hotel_def mk_taxi_def demo_flights_def demo_taxis_def
        catalog_def late_delhi_def late_gurugram_def two_city_hotel_def query_defs hotel_defs)
  have fd: "fc_date (hd (map flight_candidate ?rows)) = 739560"
    by (simp add: mk_flight_def flight_candidate_def)
  have n: "\<forall>r\<in>set (hotels ?g). h_location r \<notin> set (nearby_cities_immediate @ nearby_cities_region)"
    by (simp add: mk_hotel_def catalog_def late_delhi_def hotel_defs)
  have p: "\<exists>res h. plan_trip_enhanced strict_engine iso_sample 0 ?g'
                       ''Chennai'' ''Delhi'' ''2025-11-05'' 15000 2 = Inr res
         \<and> hotel res = Some h"
    by (simp add: mk_flight_def mk_hotel_def mk_taxi_def iso_sample_def demo_flights_def
        demo_taxis_def catalog_def late_delhi_def late_gurugram_def query_defs hotel_defs
        plan_defs plain_text Let_def)
  note t = late_arrival_city_hotel [OF q(1) ne w a f(1), of iso_sample 0 "''2025-11-05''" 15000]
  note t' = late_arrival_city_hotel [OF q(2) ne w a f(2), of iso_sample 0 "''2025-11-05''" 15000]
  note tx = late_arrival_city_hotel [OF q(3) ne w a f(3), of iso_sample 0 "''2025-11-05''" 15000]
  have px: "\<exists>res h. plan_trip_enhanced strict_engine iso_sample 0 ?x
                       ''Chennai'' ''Delhi'' ''2025-11-05'' 15000 2 = Inr res
         \<and> hotel res = Some h \<and> hc_uri h = ''HotelX''"
    by (simp add: mk_flight_def mk_hotel_def mk_taxi_def iso_sample_def demo_flights_def
        demo_taxis_def catalog_def two_city_hotel_def query_defs hotel_defs
        plan_defs plain_text Let_def)
  have nd: "''Delhi'' \<notin> set (nearby_cities_immediate @ nearby_cities_region)"
    by (simp add: nearby_cities_immediate_def nearby_cities_region_def)
  from px obtain resx hx where rx: "plan_trip_enhanced strict_engine iso_sample 0 ?x
                       ''Chennai'' ''Delhi'' ''2025-11-05'' 15000 2 = Inr resx"
      "hotel resx = Some hx" "hc_uri hx = ''HotelX''" by blast
  with tx nd have "\<exists>r\<in>set (hotels ?x). h_uri r = hc_uri hx \<and> h_location r \<noteq> ''Delhi''
                  \<and> h_location r \<in> set (nearby_cities_immediate @ nearby_cities_region)"
    by blast
  with rx have 4: "\<exists>res h r. plan_trip_enhanced strict_engine iso_sample 0 ?x
                       ''Chennai'' ''Delhi'' ''2025-11-05'' 15000 2 = Inr res
         \<and> hotel res = Some h \<and> hc_uri h = ''HotelX''
         \<and> r \<in> set (hotels ?x) \<and> h_uri r = hc_uri h
         \<and> h_location r \<noteq> ''Delhi''
         \<and> h_location r \<in> set (nearby_cities_immediate @ nearby_cities_region)" by blast
  from t n have 1: "plan_trip_enhanced strict_engine iso_sample 0 ?g
       ''Chennai'' ''Delhi'' ''2025-11-05'' 15000 2 = Inr no_hotel_result" by blast
  from t have 3: "hotel_stage ?g ''Delhi'' 739560 739562
       = hotel_stage_rows ?g [] 739560 739562" unfolding fd by blast
  from p obtain res h where rh: "plan_trip_enhanced strict_engine iso_sample 0 ?g'
                       ''Chennai'' ''Delhi'' ''2025-11-05'' 15000 2 = Inr res"
      "hotel res = Some h" by blast
  with t' have "\<exists>c\<in>set (nearby_cities_immediate @ nearby_cities_region).
               \<exists>r\<in>set (hotels ?g'). h_location r = c \<and> h = hotel_candidate (Some c) r"
    by blast
  with rh have 2: "\<exists>res h c r. plan_trip_enhanced strict_engine iso_sample 0 ?g'
                       ''Chennai'' ''Delhi'' ''2025-11-05'' 15000 2 = Inr res
         \<and> hotel res = Some h \<and> c \<in> set (nearby_cities_immediate @ nearby_cities_region)
         \<and> r \<in> set (hotels ?g')
         \<and> h_location r = c \<and> h = hotel_candidate (Some c) r" by blast
  from 1 2 3 4 show ?thesis by (simp add: failure_fields)
qed

text \<open>
  C10 as it is written fails when the arrival city is a cascade city: on a route to
  Gurugram whose only hotel is available after the window, that hotel is selected.
\<close>

theorem late_hotel_of_arrival_city_selected:
  "plan_trip_enhanced strict_engine iso_sample 0 gurugram_route ''Chennai'' ''Gurugram'' ''2025-11-05'' 15000 2
     = Inr (itinerary
              [flight_candidate (mk_flight ''Flight9'' ''Chennai'' ''Gurugram'' 5000 ''IndiGo'' 739560)]
              (flight_candidate (mk_flight ''Flight9'' ''Chennai'' ''Gurugram'' 5000 ''IndiGo'' 739560))
              (hotel_candidate (Some ''Gurugram'') late_gurugram)
              (Some ''NearbyCityNextAvail:Gurugram'')
              (Some (taxi_candidate (mk_taxi ''TaxiG1'' ''Gurugram'' 1000))) 15000)
   \<and> hotels gurugram_route = [late_gurugram]
   \<and> h_location late_gurugram = ''Gurugram''
   \<and> window_end_of 739560 2 = Inr 739562
   \<and> 739562 < h_avail late_gurugram"
  by (simp add: mk_flight_def mk_hotel_def mk_taxi_def iso_sample_def demo_taxis_def
      late_gurugram_def gurugram_route_def query_defs hotel_defs plan_defs plain_text Let_def)

section \<open>The flexible window and the ranking\<close>

lemma window_end_of_Inr: "window_end_of fd w = Inr we \<Longrightarrow> we = fd + w"
  by (auto simp: window_end_of_def split: if_splits)

lemma rank_key_le:
  "rank_key a \<le> rank_key b \<longleftrightarrow>
     hc_price a < hc_price b \<or> (hc_price a = hc_price b \<and> hc_rating b \<le> hc_rating a)"
  by (auto simp: rank_key_def)

lemma best_ranked:
  assumes "xs \<noteq> []"
  shows "hd (sort_key rank_key xs) \<in> set xs
       \<and> (\<forall>h'\<in>set xs. hc_price (hd (sort_key rank_key xs)) < hc_price h'
             \<or> (hc_price (hd (sort_key rank_key xs)) = hc_price h'
                 \<and> hc_rating h' \<le> hc_rating (hd (sort_key rank_key xs))))"
  using hd_sort_key_mem [OF assms, of rank_key] hd_sort_key_least [of _ xs rank_key]
  by (simp add: rank_key_le)

lemma distinct_map_insort_key:
  "distinct (map f (insort_key k x xs)) \<longleftrightarrow> f x \<notin> f ` set xs \<and> distinct (map f xs)"
  by (induction xs) (auto simp: set_insort_key)

lemma distinct_map_sort_key: "distinct (map f (sort_key k xs)) \<longleftrightarrow> distinct (map f xs)"
  by (induction xs) (simp_all add: distinct_map_insort_key)

lemma exact_city_ranked_distinct:
  "distinct (map hc_uri (sort_key rank_key (filtered_of g arrival fd we)))"
  by (simp add: distinct_map_sort_key filtered_of_def remove_duplicates_props(1))

text \<open>
  C3. Let the window end \<open>we\<close> be the flight date plus the window days. In every city
  queried (the arrival city with the rows \<open>hotel_candidates_of\<close>, a cascade city with
  \<open>near_candidates_of\<close>), a candidate with available-from date \<open>d\<close> is retained if and only
  if \<open>fd \<le> d \<le> fd + w\<close> or \<open>d \<le> fd\<close>. Both ends are inclusive: for a non-negative
  window, \<open>d = fd + w\<close> is retained and \<open>d = fd + w + 1\<close> is not, and any \<open>d \<le> fd\<close> is
  retained whatever the window. In the arrival city the retained candidates are deduplicated
  by URI (the same URIs remain) and the hotel chosen is the head of that list sorted by
  price ascending, then rating descending: it is in the list and no entry of the list has a
  lower price, or the same price and a higher rating. In a cascade city with a retained
  candidate the hotel chosen is the head of the retained list sorted the same way.
\<close>

theorem hotel_window_and_ranking:
  assumes "window_end_of fd w = Inr we"
  shows "(h \<in> set (within_window_of fd we cs) \<longleftrightarrow>
            h \<in> set cs \<and> ((fd \<le> hc_avail h \<and> hc_avail h \<le> fd + w) \<or> hc_avail h \<le> fd))
       \<and> (0 \<le> w \<and> h \<in> set cs \<and> hc_avail h = fd + w \<longrightarrow> h \<in> set (within_window_of fd we cs))
       \<and> (0 \<le> w \<and> hc_avail h = fd + w + 1 \<longrightarrow> h \<notin> set (within_window_of fd we cs))
       \<and> (h \<in> set cs \<and> hc_avail h \<le> fd \<longrightarrow> h \<in> set (within_window_of fd we cs))
       \<and> within_near_of g fd we city = within_window_of fd we (near_candidates_of g city)
       \<and> set (filtered_of g arrival fd we)
            \<subseteq> set (within_window_of fd we (hotel_candidates_of g arrival))
       \<and> hc_uri ` set (filtered_of g arrival fd we)
            = hc_uri ` set (within_window_of fd we (hotel_candidates_of g arrival))
       \<and> (filtered_of g arrival fd we \<noteq> [] \<longrightarrow>
            chosen_hotel (hotel_stage g arrival fd we)
              = Some (hd (sort_key rank_key (filtered_of g arrival fd we)))
            \<and> chosen_hotel_method (hotel_stage g arrival fd we) = Some ''ExactCityWithinWindow''
            \<and> hd (sort_key rank_key (filtered_of g arrival fd we))
                 \<in> set (filtered_of g arrival fd we)
            \<and> (\<forall>h'\<in>set (filtered_of g arrival fd we).
                  hc_price (hd (sort_key rank_key (filtered_of g arrival fd we))) < hc_price h'
                  \<or> (hc_price (hd (sort_key rank_key (filtered_of g arrival fd we))) = hc_price h'
                      \<and> hc_rating h'
                          \<le> hc_rating (hd (sort_key rank_key (filtered_of g arrival fd we))))))
       \<and> (within_near_of g fd we city \<noteq> [] \<longrightarrow>
            chosen_hotel (city_loop g fd we (city # rest) s)
              = Some (hd (sort_key rank_key (within_near_of g fd we city)))
            \<and> chosen_hotel_method (city_loop g fd we (city # rest) s)
              = Some (''NearbyCity:'' @ city)
            \<and> hd (sort_key rank_key (within_near_of g fd we city))
                 \<in> set (within_near_of g fd we city)
            \<and> (\<forall>h'\<in>set (within_near_of g fd we city).
                  hc_price (hd (sort_key rank_key (within_near_of g fd we city))) < hc_price h'
                  \<or> (hc_price (hd (sort_key rank_key (within_near_of g fd we city))) = hc_price h'
                      \<and> hc_rating h'
                          \<le> hc_rating (hd (sort_key rank_key (within_near_of g fd we city))))))"
proof -
  have we: "we = fd + w" using assms by (rule window_end_of_Inr)
  have 1: "h \<in> set (within_window_of fd we cs) \<longleftrightarrow>
            h \<in> set cs \<and> ((fd \<le> hc_avail h \<and> hc_avail h \<le> fd + w) \<or> hc_avail h \<le> fd)"
    by (simp add: set_within_window_of we)
  have 2: "0 \<le> w \<and> h \<in> set cs \<and> hc_avail h = fd + w \<longrightarrow> h \<in> set (within_window_of fd we cs)"
    unfolding 1 by simp
  have 3: "0 \<le> w \<and> hc_avail h = fd + w + 1 \<longrightarrow> h \<notin> set (within_window_of fd we cs)"
    unfolding 1 by simp
  have 4: "h \<in> set cs \<and> hc_avail h \<le> fd \<longrightarrow> h \<in> set (within_window_of fd we cs)"
    unfolding 1 by simp
  have 5: "within_near_of g fd we city = within_window_of fd we (near_candidates_of g city)"
    by (simp add: within_near_of_def)
  have 6: "set (filtered_of g arrival fd we)
            \<subseteq> set (within_window_of fd we (hotel_candidates_of g arrival))"
    and 7: "hc_uri ` set (filtered_of g arrival fd we)
            = hc_uri ` set (within_window_of fd we (hotel_candidates_of g arrival))"
    by (simp_all add: filtered_of_def remove_duplicates_props)
  have 8: "filtered_of g arrival fd we \<noteq> [] \<longrightarrow>
            chosen_hotel (hotel_stage g arrival fd we)
              = Some (hd (sort_key rank_key (filtered_of g arrival fd we)))
            \<and> chosen_hotel_method (hotel_stage g arrival fd we) = Some ''ExactCityWithinWindow''
            \<and> hd (sort_key rank_key (filtered_of g arrival fd we))
                 \<in> set (filtered_of g arrival fd we)
            \<and> (\<forall>h'\<in>set (filtered_of g arrival fd we).
                  hc_price (hd (sort_key rank_key (filtered_of g arrival fd we))) < hc_price h'
                  \<or> (hc_price (hd (sort_key rank_key (filtered_of g arrival fd we))) = hc_price h'
                      \<and> hc_rating h'
                          \<le> hc_rating (hd (sort_key rank_key (filtered_of g arrival fd we)))))"
  proof
    assume ne: "filtered_of g arrival fd we \<noteq> []"
    then have "chosen_hotel (hotel_stage g arrival fd we)
              = Some (hd (sort_key rank_key (filtered_of g arrival fd we)))
            \<and> chosen_hotel_method (hotel_stage g arrival fd we) = Some ''ExactCityWithinWindow''"
      by (simp add: hotel_stage_def hotel_stage_rows_def filtered_of_def hotel_candidates_of_def
          Let_def)
    with best_ranked [OF ne] show "chosen_hotel (hotel_stage g arrival fd we)
              = Some (hd (sort_key rank_key (filtered_of g arrival fd we)))
            \<and> chosen_hotel_method (hotel_stage g arrival fd we) = Some ''ExactCityWithinWindow''
            \<and> hd (sort_key rank_key (filtered_of g arrival fd we))
                 \<in> set (filtered_of g arrival fd we)
            \<and> (\<forall>h'\<in>set (filtered_of g arrival fd we).
                  hc_price (hd (sort_key rank_key (filtered_of g arrival fd we))) < hc_price h'
                  \<or> (hc_price (hd (sort_key rank_key (filtered_of g arrival fd we))) = hc_price h'
                      \<and> hc_rating h'
                          \<le> hc_rating (hd (sort_key rank_key (filtered_of g arrival fd we)))))"
      by blast
  qed
  have 9: "within_near_of g fd we city \<noteq> [] \<longrightarrow>
            chosen_hotel (city_loop g fd we (city # rest) s)
              = Some (hd (sort_key rank_key (within_near_of g fd we city)))
            \<and> chosen_hotel_method (city_loop g fd we (city # rest) s)
              = Some (''NearbyCity:'' @ city)
            \<and> hd (sort_key rank_key (within_near_of g fd we city))
                 \<in> set (within_near_of g fd we city)
            \<and> (\<forall>h'\<in>set (within_near_of g fd we city).
                  hc_price (hd (sort_key rank_key (within_near_of g fd we city))) < hc_price h'
                  \<or> (hc_price (hd (sort_key rank_key (within_near_of g fd we city))) = hc_price h'
                      \<and> hc_rating h'
                          \<le> hc_rating (hd (sort_key rank_key (within_near_of g fd we city)))))"
  proof
    assume ne: "within_near_of g fd we city \<noteq> []"
    have "chosen_hotel (city_loop g fd we (city # rest) s)
              = Some (hd (sort_key rank_key (within_near_of g fd we city)))
            \<and> chosen_hotel_method (city_loop g fd we (city # rest) s)
              = Some (''NearbyCity:'' @ city)"
      unfolding city_loop_match [OF ne] by simp
    with best_ranked [OF ne] show "chosen_hotel (city_loop g fd we (city # rest) s)
              = Some (hd (sort_key rank_key (within_near_of g fd we city)))
            \<and> chosen_hotel_method (city_loop g fd we (city # rest) s)
              = Some (''NearbyCity:'' @ city)
            \<and> hd (sort_key rank_key (within_near_of g fd we city))
                 \<in> set (within_near_of g fd we city)
            \<and> (\<forall>h'\<in>set (within_near_of g fd we city).
                  hc_price (hd (sort_key rank_key (within_near_of g fd we city))) < hc_price h'
                  \<or> (hc_price (hd (sort_key rank_key (within_near_of g fd we city))) = hc_price h'
                      \<and> hc_rating h'
                          \<le> hc_rating (hd (sort_key rank_key (within_near_of g fd we city)))))"
      by blast
  qed
  from 1 2 3 4 5 6 7 8 9 show ?thesis by (intro conjI)
qed

theorem hotel_window_and_ranking_witness:
  "window_end_of 739560 2 = Inr 739562
   \<and> hotel_candidate None edge_in_delhi
        \<in> set (within_window_of 739560 739562
                 (hotel_candidates_of (catalog [edge_in_delhi, edge_out_delhi, early_delhi]) ''Delhi''))
   \<and> hotel_candidate None edge_out_delhi
        \<notin> set (within_window_of 739560 739562
                 (hotel_candidates_of (catalog [edge_in_delhi, edge_out_delhi, early_delhi]) ''Delhi''))
   \<and> hotel_candidate None early_delhi
        \<in> set (within_window_of 739560 739562
                 (hotel_candidates_of (catalog [edge_in_delhi, edge_out_delhi, early_delhi]) ''Delhi''))
   \<and> chosen_hotel (hotel_stage (catalog demo_hotels) ''Delhi'' 739560 739562)
        = Some (hotel_candidate None (mk_hotel ''Hotel2'' ''Delhi'' 2500 3.9 739560))
   \<and> chosen_hotel (city_loop (catalog demo_hotels) 739560 739562
                      [''Gurugram'', ''Noida''] empty_state)
        = Some (hotel_candidate (Some ''Gurugram'')
                  (mk_hotel ''HotelG2'' ''Gurugram'' 2200 3.8 739559))"
proof -
  let ?b = "catalog [edge_in_delhi, edge_out_delhi, early_delhi]"
  let ?cs = "hotel_candidates_of ?b ''Delhi''"
  have w: "window_end_of 739560 2 = Inr 739562" by (simp add: window_end_of_def)
  note t = hotel_window_and_ranking [OF w, where cs = ?cs and g = "catalog demo_hotels"
        and arrival = "''Delhi''" and city = "''Gurugram''" and rest = "[''Noida'']"
        and s = empty_state]
  have cs: "hotel_candidate None edge_in_delhi \<in> set ?cs"
    "hotel_candidate None early_delhi \<in> set ?cs"
    by (simp_all add: mk_flight_def mk_hotel_def mk_taxi_def empty_state_def demo_flights_def
        demo_taxis_def demo_hotels_def catalog_def edge_in_delhi_def edge_out_delhi_def
        early_delhi_def query_defs)
  have av: "hc_avail (hotel_candidate None edge_in_delhi) = 739560 + 2"
    "hc_avail (hotel_candidate None edge_out_delhi) = 739560 + 2 + 1"
    "hc_avail (hotel_candidate None early_delhi) \<le> 739560"
    by (simp_all add: mk_flight_def mk_hotel_def mk_taxi_def empty_state_def demo_flights_def
        demo_taxis_def demo_hotels_def catalog_def edge_in_delhi_def edge_out_delhi_def
        early_delhi_def query_defs)
  have ne: "filtered_of (catalog demo_hotels) ''Delhi'' 739560 739562 \<noteq> []"
    "within_near_of (catalog demo_hotels) 739560 739562 ''Gurugram'' \<noteq> []"
    by (simp_all add: mk_flight_def mk_hotel_def mk_taxi_def empty_state_def demo_flights_def
        demo_taxis_def demo_hotels_def catalog_def edge_in_delhi_def edge_out_delhi_def
        early_delhi_def query_defs hotel_defs)
  have ev: "hd (sort_key rank_key (filtered_of (catalog demo_hotels) ''Delhi'' 739560 739562))
              = hotel_candidate None (mk_hotel ''Hotel2'' ''Delhi'' 2500 3.9 739560)"
    "hd (sort_key rank_key (within_near_of (catalog demo_hotels) 739560 739562 ''Gurugram''))
              = hotel_candidate (Some ''Gurugram'') (mk_hotel ''HotelG2'' ''Gurugram'' 2200 3.8 739559)"
    by (simp_all add: mk_flight_def mk_hotel_def mk_taxi_def empty_state_def demo_flights_def
        demo_taxis_def demo_hotels_def catalog_def edge_in_delhi_def edge_out_delhi_def
        early_delhi_def query_defs hotel_defs)
  from t [of "hotel_candidate None edge_in_delhi"] cs(1) av(1)
  have 1: "hotel_candidate None edge_in_delhi \<in> set (within_window_of 739560 739562 ?cs)"
    by simp
  from t [of "hotel_candidate None edge_out_delhi"] av(2)
  have 2: "hotel_candidate None edge_out_delhi \<notin> set (within_window_of 739560 739562 ?cs)"
    by simp
  from t [of "hotel_candidate None early_delhi"] cs(2) av(3)
  have 3: "hotel_candidate None early_delhi \<in> set (within_window_of 739560 739562 ?cs)"
    by simp
  from t [of "hotel_candidate None early_delhi"] ne(1)
  have 4: "chosen_hotel (hotel_stage (catalog demo_hotels) ''Delhi'' 739560 739562)
        = Some (hd (sort_key rank_key (filtered_of (catalog demo_hotels) ''Delhi'' 739560 739562)))"
    by blast
  from t [of "hotel_candidate None early_delhi"] ne(2)
  have 5: "chosen_hotel (city_loop (catalog demo_hotels) 739560 739562
                      [''Gurugram'', ''Noida''] empty_state)
        = Some (hd (sort_key rank_key
                  (within_near_of (catalog demo_hotels) 739560 739562 ''Gurugram'')))"
    by blast
  from w 1 2 3 4 5 show ?thesis unfolding ev by (intro conjI)
qed

section \<open>Duplicates in a cascade city\<close>

text \<open>
  C7 at a catalog in which one Gurugram hotel has two service dates, both before the flight,
  and Delhi has no hotel. The ranked list of the Gurugram query holds the URI twice: lines
  252-255 sort \<^verbatim>\<open>within_near\<close> as it is, without the \<^verbatim>\<open>seen\<close> pass of lines 203-206.
  The same two rows queried as the arrival city leave one entry.
\<close>

theorem cascade_candidates_repeat_uri:
  "filtered_of (catalog gurugram_two_dates) ''Delhi'' 739560 739562 = []
   \<and> map hc_uri (sort_key rank_key
                   (within_near_of (catalog gurugram_two_dates) 739560 739562 ''Gurugram''))
       = [''HotelG1'', ''HotelG1'']
   \<and> chosen_hotel_method (hotel_stage (catalog gurugram_two_dates) ''Delhi'' 739560 739562)
       = Some ''NearbyCity:Gurugram''
   \<and> map hc_uri (sort_key rank_key
                   (filtered_of (catalog gurugram_two_dates) ''Gurugram'' 739560 739562))
       = [''HotelG1'']"
  by (simp add: mk_flight_def mk_hotel_def mk_taxi_def demo_flights_def demo_taxis_def
      catalog_def gurugram_two_dates_def query_defs hotel_defs Let_def)

section \<open>Flights and the fields of a result\<close>

lemma select_taxi_None: "select_taxi g ch = None \<longleftrightarrow> taxis g = []"
proof -
  have "taxi_candidates_of g = [] \<longleftrightarrow> taxis g = []"
    by (simp add: taxi_candidates_of_def query_taxis_def sort_key_Nil_iff)
  then show ?thesis
    by (auto simp: select_taxi_def Let_def split: option.splits)
qed

text \<open>
  C2, as the code has it. Let the flight query hold the literals \<open>d\<close> and \<open>a\<close> for the
  requested departure and arrival; for a plain request (no double quote, backslash or line
  break) they are the requested texts themselves. If no flight offer has departure city
  \<open>d\<close> and arrival city \<open>a\<close>, the planner returns the NoFlights result, which selects
  nothing. If some offer has, the flight the planner selects (the head of its candidates) is
  one of those offers and no such offer is cheaper; no result has status NoFlights then, and
  a result carries that flight unless it is the NoHotelAnywhere result, which carries none.
\<close>

theorem cheapest_flight_or_no_flights:
  assumes "interpolated departure = Some d" and "interpolated arrival = Some a"
  shows "(plain departure \<longrightarrow> d = departure) \<and> (plain arrival \<longrightarrow> a = arrival)
   \<and> ((\<forall>r\<in>set (flights g). \<not> (f_dep r = d \<and> f_arr r = a)) \<longrightarrow>
      plan_trip_enhanced eng fi today g departure arrival ds budget flex = Inr no_flights_result
      \<and> status no_flights_result = NoFlights \<and> flight no_flights_result = None
      \<and> hotel no_flights_result = None \<and> taxi no_flights_result = None)
   \<and> ((\<exists>r\<in>set (flights g). f_dep r = d \<and> f_arr r = a) \<longrightarrow>
      (\<exists>b\<in>set (flights g). f_dep b = d \<and> f_arr b = a
         \<and> (\<forall>r\<in>set (flights g). f_dep r = d \<and> f_arr r = a \<longrightarrow> f_price b \<le> f_price r)
         \<and> hd (flight_candidates_of g d a) = flight_candidate b
         \<and> (\<forall>res. plan_trip_enhanced eng fi today g departure arrival ds budget flex = Inr res \<longrightarrow>
               status res \<noteq> NoFlights
               \<and> (flight res = Some (flight_candidate b)
                  \<or> (flight res = None \<and> status res = NoHotelAnywhere)))))"
proof (intro conjI impI)
  assume "plain departure"
  from interpolated_plain [OF this] assms(1) show "d = departure" by simp
next
  assume "plain arrival"
  from interpolated_plain [OF this] assms(2) show "a = arrival" by simp
next
  assume none: "\<forall>r\<in>set (flights g). \<not> (f_dep r = d \<and> f_arr r = a)"
  then have "flights_matching g d a = []"
    using flight_candidates_of_Nil [of g d a] by (simp add: flight_candidates_of_def)
  then show "plan_trip_enhanced eng fi today g departure arrival ds budget flex = Inr no_flights_result"
    by (simp add: plan_trip_enhanced_def plan_from_flights_def query_flights_literal [OF assms]
        Let_def)
next
  show "status no_flights_result = NoFlights" "flight no_flights_result = None"
    "hotel no_flights_result = None" "taxi no_flights_result = None"
    by (simp_all add: no_flights_result_def)
next
  assume some: "\<exists>r\<in>set (flights g). f_dep r = d \<and> f_arr r = a"
  then have ne: "flight_candidates_of g d a \<noteq> []"
    by (simp add: flight_candidates_of_Nil)
  from hd_flight_candidates_of [OF ne] obtain b where b:
    "b \<in> set (flights g)" "f_dep b = d" "f_arr b = a"
    "hd (flight_candidates_of g d a) = flight_candidate b"
    "\<forall>r\<in>set (flights g). f_dep r = d \<and> f_arr r = a \<longrightarrow> f_price b \<le> f_price r"
    by blast
  have "status res \<noteq> NoFlights
        \<and> (flight res = Some (flight_candidate b)
           \<or> (flight res = None \<and> status res = NoHotelAnywhere))"
    if "plan_trip_enhanced eng fi today g departure arrival ds budget flex = Inr res" for res
  proof -
    from plan_shape [OF that] query_flights_literal [OF assms, of eng g]
    have "flights_matching g d a \<noteq> [] \<and>
            (res = no_hotel_result
             \<or> (\<exists>ch m. res = itinerary (map flight_candidate (flights_matching g d a))
                           (hd (map flight_candidate (flights_matching g d a))) ch m
                           (select_taxi g (Some ch)) budget))"
      using ne by (auto simp: flight_candidates_of_def)
    with b(4) show ?thesis
      by (auto simp: flight_candidates_of_def itinerary_fields failure_fields)
  qed
  with b show "\<exists>b\<in>set (flights g). f_dep b = d \<and> f_arr b = a
         \<and> (\<forall>r\<in>set (flights g). f_dep r = d \<and> f_arr r = a \<longrightarrow> f_price b \<le> f_price r)
         \<and> hd (flight_candidates_of g d a) = flight_candidate b
         \<and> (\<forall>res. plan_trip_enhanced eng fi today g departure arrival ds budget flex = Inr res \<longrightarrow>
               status res \<noteq> NoFlights
               \<and> (flight res = Some (flight_candidate b)
                  \<or> (flight res = None \<and> status res = NoHotelAnywhere)))"
    by blast
qed

theorem cheapest_flight_or_no_flights_witness:
  "plan_trip_enhanced strict_engine iso_sample 0 (catalog demo_hotels)
       ''Chennai'' ''Bangalore'' ''2025-11-05'' 15000 2 = Inr no_flights_result
   \<and> (\<exists>res b. plan_trip_enhanced strict_engine iso_sample 0 (catalog demo_hotels)
                   ''Chennai'' ''Delhi'' ''2025-11-05'' 15000 2 = Inr res
         \<and> flight res = Some (flight_candidate b) \<and> b \<in> set demo_flights
         \<and> f_dep b = ''Chennai'' \<and> f_arr b = ''Delhi''
         \<and> f_price b \<le> 6500 \<and> f_price b \<le> 7200 \<and> f_price b \<le> 9000)"
proof -
  let ?g = "catalog demo_hotels"
  have i: "interpolated ''Chennai'' = Some ''Chennai''" "interpolated ''Delhi'' = Some ''Delhi''"
    "interpolated ''Bangalore'' = Some ''Bangalore''"
    by (simp_all add: plain_text)
  note t = cheapest_flight_or_no_flights [OF i(1), where g = ?g and eng = strict_engine
      and fi = iso_sample and today = 0 and ds = "''2025-11-05''" and budget = 15000 and flex = 2]
  have n: "\<forall>r\<in>set (flights ?g). \<not> (f_dep r = ''Chennai'' \<and> f_arr r = ''Bangalore'')"
    by (simp add: mk_flight_def demo_flights_def catalog_def)
  have fl: "flights ?g = demo_flights" by (simp add: catalog_def)
  have m: "mk_flight ''Flight1'' ''Chennai'' ''Delhi'' 6500 ''IndiGo'' 739560 \<in> set (flights ?g)"
    "mk_flight ''Flight2'' ''Chennai'' ''Delhi'' 7200 ''Air India'' 739560 \<in> set (flights ?g)"
    "mk_flight ''Flight4'' ''Chennai'' ''Delhi'' 9000 ''SpiceJet'' 739558 \<in> set (flights ?g)"
    by (simp_all add: catalog_def demo_flights_def)
  have e: "\<exists>r\<in>set (flights ?g). f_dep r = ''Chennai'' \<and> f_arr r = ''Delhi''"
    by (rule bexI [OF _ m(1)]) (simp add: mk_flight_def)
  from t [OF i(3)] n have 1: "plan_trip_enhanced strict_engine iso_sample 0 ?g
       ''Chennai'' ''Bangalore'' ''2025-11-05'' 15000 2 = Inr no_flights_result" by blast
  from t [OF i(2)] e obtain b where b: "b \<in> set (flights ?g)"
    "f_dep b = ''Chennai''" "f_arr b = ''Delhi''"
    "\<forall>r\<in>set (flights ?g). f_dep r = ''Chennai'' \<and> f_arr r = ''Delhi'' \<longrightarrow> f_price b \<le> f_price r"
    "\<forall>res. plan_trip_enhanced strict_engine iso_sample 0 ?g
            ''Chennai'' ''Delhi'' ''2025-11-05'' 15000 2 = Inr res \<longrightarrow>
               status res \<noteq> NoFlights
               \<and> (flight res = Some (flight_candidate b)
                  \<or> (flight res = None \<and> status res = NoHotelAnywhere))"
    by blast
  from b(4) m have p: "f_price b \<le> 6500" "f_price b \<le> 7200" "f_price b \<le> 9000"
    by (auto simp: mk_flight_def)
  obtain res f where r: "plan_trip_enhanced strict_engine iso_sample 0 ?g
         ''Chennai'' ''Delhi'' ''2025-11-05'' 15000 2 = Inr res" "flight res = Some f"
    using demo_plan [of 15000] by blast
  with b(5) have "flight res = Some (flight_candidate b)" by auto
  with r(1) b(1,2,3) p fl have "\<exists>res b. plan_trip_enhanced strict_engine iso_sample 0 ?g
                   ''Chennai'' ''Delhi'' ''2025-11-05'' 15000 2 = Inr res
         \<and> flight res = Some (flight_candidate b) \<and> b \<in> set demo_flights
         \<and> f_dep b = ''Chennai'' \<and> f_arr b = ''Delhi''
         \<and> f_price b \<le> 6500 \<and> f_price b \<le> 7200 \<and> f_price b \<le> 9000" by auto
  with 1 show ?thesis by blast
qed

lemma escaped_chennai_read: "interpolated escaped_chennai = Some ''Chennai''"
  by code_simp

text \<open>
  C2 as it is written fails: for the departure text with the escape, no flight offer has
  that text as its departure city, so the claim gives NoFlights; the query holds the literal
  Chennai and the planner returns the itinerary of the Chennai flights, with status OK.
\<close>

theorem escaped_departure_selects_flight:
  "escaped_chennai \<notin> set (map f_dep (flights (catalog demo_hotels)))
   \<and> plan_trip_enhanced strict_engine iso_sample 0 (catalog demo_hotels)
       escaped_chennai ''Delhi'' ''2025-11-05'' 15000 2 = Inr demo_itinerary
   \<and> status demo_itinerary = OK
   \<and> flight demo_itinerary
       = Some (flight_candidate (mk_flight ''Flight1'' ''Chennai'' ''Delhi'' 6500 ''IndiGo'' 739560))"
proof -
  let ?g = "catalog demo_hotels"
  have 1: "escaped_chennai \<notin> set (map f_dep (flights ?g))"
    by (simp add: escaped_chennai_def mk_flight_def demo_flights_def catalog_def)
  have "plan_trip_enhanced strict_engine iso_sample 0 ?g
          escaped_chennai ''Delhi'' ''2025-11-05'' 15000 2
        = plan_trip_enhanced strict_engine iso_sample 0 ?g
          ''Chennai'' ''Delhi'' ''2025-11-05'' 15000 2"
    by (simp add: plan_trip_enhanced_def query_flights_def escaped_chennai_read plain_text)
  also have "\<dots> = Inr demo_itinerary"
    by (simp add: demo_itinerary_def mk_flight_def mk_hotel_def mk_taxi_def iso_sample_def
        demo_flights_def demo_taxis_def demo_hotels_def catalog_def query_defs hotel_defs
        plan_defs plain_text Let_def)
  finally have 2: "plan_trip_enhanced strict_engine iso_sample 0 ?g
          escaped_chennai ''Delhi'' ''2025-11-05'' 15000 2 = Inr demo_itinerary" .
  have 3: "status demo_itinerary = OK"
    "flight demo_itinerary
       = Some (flight_candidate (mk_flight ''Flight1'' ''Chennai'' ''Delhi'' 6500 ''IndiGo'' 739560))"
    by (simp_all add: demo_itinerary_def itinerary_def flight_candidate_def hotel_candidate_def
        taxi_candidate_def mk_flight_def mk_hotel_def mk_taxi_def Let_def)
  from 1 2 3 show ?thesis by (intro conjI)
qed

text \<open>
  C5. A returned result with status OK or OverBudget has a flight and a hotel. Its taxi is
  absent exactly when the catalog has no taxi offer, so the taxi may be absent under either
  status.
\<close>

theorem itinerary_has_flight_and_hotel:
  assumes "plan_trip_enhanced eng fi today g departure arrival ds budget flex = Inr res"
    and "status res = OK \<or> status res = OverBudget"
  shows "flight res \<noteq> None \<and> hotel res \<noteq> None \<and> (taxi res = None \<longleftrightarrow> taxis g = [])"
  using plan_shape [OF assms(1)] assms(2)
  by (auto simp: itinerary_fields failure_fields select_taxi_None)

lemma no_taxi_plan:
  "\<exists>res. plan_trip_enhanced strict_engine iso_sample 0 no_taxi_catalog
            ''Chennai'' ''Delhi'' ''2025-11-05'' budget 2 = Inr res
     \<and> status res = (if 9000 \<le> budget then OK else OverBudget)"
  by (simp add: mk_flight_def mk_hotel_def iso_sample_def demo_flights_def demo_hotels_def
      no_taxi_catalog_def query_defs hotel_defs plan_defs plain_text Let_def)

theorem itinerary_has_flight_and_hotel_witness:
  "(\<exists>res. plan_trip_enhanced strict_engine iso_sample 0 no_taxi_catalog
             ''Chennai'' ''Delhi'' ''2025-11-05'' 15000 2 = Inr res
      \<and> status res = OK \<and> flight res \<noteq> None \<and> hotel res \<noteq> None \<and> taxi res = None)
   \<and> (\<exists>res. plan_trip_enhanced strict_engine iso_sample 0 no_taxi_catalog
             ''Chennai'' ''Delhi'' ''2025-11-05'' 8000 2 = Inr res
      \<and> status res = OverBudget \<and> flight res \<noteq> None \<and> hotel res \<noteq> None \<and> taxi res = None)"
proof -
  have nt: "taxis no_taxi_catalog = []" by (simp add: no_taxi_catalog_def)
  obtain r1 where r1: "plan_trip_enhanced strict_engine iso_sample 0 no_taxi_catalog
             ''Chennai'' ''Delhi'' ''2025-11-05'' 15000 2 = Inr r1" "status r1 = OK"
    using no_taxi_plan [of 15000] by auto
  obtain r2 where r2: "plan_trip_enhanced strict_engine iso_sample 0 no_taxi_catalog
             ''Chennai'' ''Delhi'' ''2025-11-05'' 8000 2 = Inr r2" "status r2 = OverBudget"
    using no_taxi_plan [of 8000] by auto
  from itinerary_has_flight_and_hotel [OF r1(1)] r1(2) nt
  have 1: "flight r1 \<noteq> None \<and> hotel r1 \<noteq> None \<and> taxi r1 = None" by simp
  from itinerary_has_flight_and_hotel [OF r2(1)] r2(2) nt
  have 2: "flight r2 \<noteq> None \<and> hotel r2 \<noteq> None \<and> taxi r2 = None" by simp
  from r1 r2 1 2 show ?thesis by blast
qed

text \<open>
  C6, as the code has it. A returned result with status OK or OverBudget holds the list of
  flight candidates, one per row of the flight query in the order of the query: the offers
  of the route whose literals the query holds, in ascending price. A result with status
  NoFlights or NoHotelAnywhere holds a status and a message only: no candidates, no
  selections, no total, no explanation.
\<close>

theorem flight_candidates_in_result:
  assumes "plan_trip_enhanced eng fi today g departure arrival ds budget flex = Inr res"
  shows "(status res = OK \<or> status res = OverBudget \<longrightarrow>
            (\<exists>rows. query_flights eng g departure arrival = Inr rows
               \<and> flight_candidates res = Some (map flight_candidate rows)
               \<and> (\<forall>d a. interpolated departure = Some d \<and> interpolated arrival = Some a \<longrightarrow>
                      rows = sort_key f_price
                               (filter (\<lambda>r. f_dep r = d \<and> f_arr r = a) (flights g)))))
       \<and> (status res = NoFlights \<or> status res = NoHotelAnywhere \<longrightarrow>
            flight_candidates res = None \<and> flight res = None \<and> hotel res = None
            \<and> taxi res = None \<and> total_cost res = None \<and> explanation res = None
            \<and> message res \<noteq> None)"
proof -
  from plan_shape [OF assms] obtain rows where
    q: "query_flights eng g departure arrival = Inr rows"
    and r: "(rows = [] \<and> res = no_flights_result)
              \<or> (rows \<noteq> [] \<and>
                   (res = no_hotel_result
                    \<or> (\<exists>ch m. res = itinerary (map flight_candidate rows)
                                  (hd (map flight_candidate rows)) ch m
                                  (select_taxi g (Some ch)) budget)))" by blast
  have lit: "\<forall>d a. interpolated departure = Some d \<and> interpolated arrival = Some a \<longrightarrow>
                      rows = sort_key f_price
                               (filter (\<lambda>r. f_dep r = d \<and> f_arr r = a) (flights g))"
    using q by (auto simp: query_flights_def flights_matching_def)
  from r have "(status res = OK \<or> status res = OverBudget \<longrightarrow>
                  flight_candidates res = Some (map flight_candidate rows))
       \<and> (status res = NoFlights \<or> status res = NoHotelAnywhere \<longrightarrow>
            flight_candidates res = None \<and> flight res = None \<and> hotel res = None
            \<and> taxi res = None \<and> total_cost res = None \<and> explanation res = None
            \<and> message res \<noteq> None)"
    by (auto simp: itinerary_fields failure_fields)
  with q lit show ?thesis by blast
qed

lemma demo_plan_status:
  "\<exists>res. plan_trip_enhanced strict_engine iso_sample 0 (catalog demo_hotels)
            ''Chennai'' ''Delhi'' ''2025-11-05'' 15000 2 = Inr res \<and> status res = OK"
  by (simp add: mk_flight_def mk_hotel_def mk_taxi_def iso_sample_def demo_flights_def
      demo_taxis_def demo_hotels_def catalog_def query_defs hotel_defs plan_defs plain_text
      Let_def)

lemma demo_candidates:
  "map flight_candidate
     (sort_key f_price
        (filter (\<lambda>r. f_dep r = ''Chennai'' \<and> f_arr r = ''Delhi'') (flights (catalog hs))))
     = [flight_candidate (mk_flight ''Flight1'' ''Chennai'' ''Delhi'' 6500 ''IndiGo'' 739560),
        flight_candidate (mk_flight ''Flight2'' ''Chennai'' ''Delhi'' 7200 ''Air India'' 739560),
        flight_candidate (mk_flight ''Flight4'' ''Chennai'' ''Delhi'' 9000 ''SpiceJet'' 739558)]"
  by (simp add: mk_flight_def mk_taxi_def demo_flights_def demo_taxis_def catalog_def query_defs)

theorem flight_candidates_in_result_witness:
  "(\<exists>res. plan_trip_enhanced strict_engine iso_sample 0 (catalog demo_hotels)
            ''Chennai'' ''Delhi'' ''2025-11-05'' 15000 2 = Inr res \<and> status res = OK
      \<and> flight_candidates res
          = Some [flight_candidate (mk_flight ''Flight1'' ''Chennai'' ''Delhi'' 6500 ''IndiGo'' 739560),
                  flight_candidate (mk_flight ''Flight2'' ''Chennai'' ''Delhi'' 7200 ''Air India'' 739560),
                  flight_candidate (mk_flight ''Flight4'' ''Chennai'' ''Delhi'' 9000 ''SpiceJet'' 739558)])
   \<and> (\<exists>res. plan_trip_enhanced strict_engine iso_sample 0 (catalog [late_delhi])
            ''Chennai'' ''Delhi'' ''2025-11-05'' 15000 2 = Inr res
      \<and> status res = NoHotelAnywhere \<and> flight_candidates res = None)"
proof -
  have i: "interpolated ''Chennai'' = Some ''Chennai''" "interpolated ''Delhi'' = Some ''Delhi''"
    by (simp_all add: plain_text)
  obtain r1 where r1: "plan_trip_enhanced strict_engine iso_sample 0 (catalog demo_hotels)
            ''Chennai'' ''Delhi'' ''2025-11-05'' 15000 2 = Inr r1" "status r1 = OK"
    using demo_plan_status by blast
  have r2: "plan_trip_enhanced strict_engine iso_sample 0 (catalog [late_delhi])
            ''Chennai'' ''Delhi'' ''2025-11-05'' 15000 2 = Inr no_hotel_result"
    "status no_hotel_result = NoHotelAnywhere"
    by (simp_all add: mk_flight_def mk_hotel_def mk_taxi_def iso_sample_def demo_flights_def
        demo_taxis_def catalog_def late_delhi_def query_defs hotel_defs plan_defs plain_text
        Let_def)
  from flight_candidates_in_result [OF r1(1)] r1(2) i
  have 1: "flight_candidates r1
             = Some (map flight_candidate
                       (sort_key f_price
                          (filter (\<lambda>r. f_dep r = ''Chennai'' \<and> f_arr r = ''Delhi'')
                             (flights (catalog demo_hotels)))))"
    by auto
  from flight_candidates_in_result [OF r2(1)] r2(2)
  have 2: "flight_candidates no_hotel_result = None" by simp
  from r1 1 r2 2 show ?thesis unfolding demo_candidates by blast
qed

text \<open>
  C6 as it is written fails: without any hotel in the catalog the result is the
  NoHotelAnywhere one, which has no list of candidates although three flights of the route
  were considered; the NoFlights result has none either.
\<close>

theorem failure_results_omit_candidates:
  "plan_trip_enhanced strict_engine iso_sample 0 (catalog [])
       ''Chennai'' ''Delhi'' ''2025-11-05'' 15000 2 = Inr no_hotel_result
   \<and> status no_hotel_result = NoHotelAnywhere
   \<and> flight_candidates no_hotel_result = None
   \<and> query_flights strict_engine (catalog []) ''Chennai'' ''Delhi''
       = Inr [mk_flight ''Flight1'' ''Chennai'' ''Delhi'' 6500 ''IndiGo'' 739560,
              mk_flight ''Flight2'' ''Chennai'' ''Delhi'' 7200 ''Air India'' 739560,
              mk_flight ''Flight4'' ''Chennai'' ''Delhi'' 9000 ''SpiceJet'' 739558]
   \<and> flight_candidates_of (catalog []) ''Chennai'' ''Delhi''
       = [flight_candidate (mk_flight ''Flight1'' ''Chennai'' ''Delhi'' 6500 ''IndiGo'' 739560),
          flight_candidate (mk_flight ''Flight2'' ''Chennai'' ''Delhi'' 7200 ''Air India'' 739560),
          flight_candidate (mk_flight ''Flight4'' ''Chennai'' ''Delhi'' 9000 ''SpiceJet'' 739558)]
   \<and> plan_trip_enhanced strict_engine iso_sample 0 (catalog [])
       ''Chennai'' ''Bangalore'' ''2025-11-05'' 15000 2 = Inr no_flights_result
   \<and> status no_flights_result = NoFlights
   \<and> flight_candidates no_flights_result = None"
  by (simp add: mk_flight_def mk_taxi_def iso_sample_def demo_flights_def demo_taxis_def
      catalog_def flight_candidates_of_def query_defs hotel_defs plan_defs plain_text Let_def)

end
